theory Spec2Isabelle
  imports Main "HOL-Library.Word"
begin

section \<open>JavaScript values, strings and errors\<close>

text \<open>
  The call pipeline lives in two modules: \<^verbatim>\<open>ai-caller/deepgramService.js\<close> (the caches,
  \<^verbatim>\<open>generateTTS\<close>, \<^verbatim>\<open>processTranscript\<close>) and the telephony route that requires it
  (\<^verbatim>\<open>twilioStreamWebhook\<close>, \<^verbatim>\<open>handleWebSocket\<close>). Every \<^verbatim>\<open>throw\<close> and every rejected
  promise is a value of \<open>js_error\<close>; a function that may throw returns \<open>js_error + 'a\<close>.
\<close>

datatype js_error =
    TypeError
  | ReferenceError
  | SyntaxError
  | EmptyTextError
  | TTSFailedError
  | AxiosError
  | ModelCallError
  | CollaboratorError

text \<open>
  A JavaScript string is a sequence of 16-bit code units. \<open>js s\<close> is the string whose
  code units are the character codes of the ASCII text \<open>s\<close>: the string literals of the
  code are written with it. Texts that come from outside (a transcript, a name the model
  extracted, a text handed to \<^verbatim>\<open>generateTTS\<close>) are arbitrary sequences of code units.
\<close>

type_synonym code_unit = "16 word"

type_synonym jstring = "code_unit list"

definition js :: "string \<Rightarrow> jstring" where
  "js s = map of_char s"

text \<open>
  The values that cross the module boundaries dynamically typed: the parsed arguments of a
  model function call, the results of the appointment collaborator, and whatever a caller
  hands to \<^verbatim>\<open>generateTTS\<close>. The three function schemas declare string and boolean fields
  only, so numbers and arrays are left out. An object lists its own properties, each key once.
\<close>

datatype jsval =
    JUndefined
  | JNull
  | JBool bool
  | JStr jstring
  | JObj "(jstring \<times> jsval) list"

text \<open>\<^verbatim>\<open>v.key\<close>: a TypeError on null and undefined, undefined on a primitive or a missing key.\<close>

fun getProp :: "jsval \<Rightarrow> jstring \<Rightarrow> js_error + jsval" where
  "getProp JUndefined k = Inl TypeError"
| "getProp JNull k = Inl TypeError"
| "getProp (JObj kvs) k = Inr (case map_of kvs k of None \<Rightarrow> JUndefined | Some v \<Rightarrow> v)"
| "getProp (JBool b) k = Inr JUndefined"
| "getProp (JStr s) k = Inr JUndefined"

text \<open>Truthiness, as \<^verbatim>\<open>if (v)\<close>, \<^verbatim>\<open>v ? a : b\<close> and \<^verbatim>\<open>!v\<close> read it.\<close>

fun truthy :: "jsval \<Rightarrow> bool" where
  "truthy JUndefined = False"
| "truthy JNull = False"
| "truthy (JBool b) = b"
| "truthy (JStr s) = (s \<noteq> [])"
| "truthy (JObj kvs) = True"

text \<open>String conversion inside a template literal.\<close>

fun toStr :: "jsval \<Rightarrow> jstring" where
  "toStr JUndefined = js ''undefined''"
| "toStr JNull = js ''null''"
| "toStr (JBool b) = (if b then js ''true'' else js ''false'')"
| "toStr (JStr s) = s"
| "toStr (JObj kvs) = js ''[object Object]''"

text \<open>
  \<^verbatim>\<open>String.prototype.trim\<close> strips white space and line terminators from both ends. White
  space is tab (U+0009), vertical tab (U+000B), form feed (U+000C), the byte order mark
  (U+FEFF) and the space separators of Unicode: U+0020, U+00A0, U+1680, U+2000 to U+200A,
  U+202F, U+205F and U+3000. The line terminators are U+000A, U+000D, U+2028 and U+2029.
  All of them are single code units.
\<close>

definition is_space :: "code_unit \<Rightarrow> bool" where
  "is_space c =
     (c = 0x0009 \<or> c = 0x000A \<or> c = 0x000B \<or> c = 0x000C \<or> c = 0x000D \<or> c = 0x0020
      \<or> c = 0x00A0 \<or> c = 0x1680 \<or> (0x2000 \<le> c \<and> c \<le> 0x200A) \<or> c = 0x2028
      \<or> c = 0x2029 \<or> c = 0x202F \<or> c = 0x205F \<or> c = 0x3000 \<or> c = 0xFEFF)"

definition trim :: "jstring \<Rightarrow> jstring" where
  "trim s = rev (dropWhile is_space (rev (dropWhile is_space s)))"

text \<open>
  \<^verbatim>\<open>v.trim()\<close> on a dynamically typed value: only a string has the method; on null and
  undefined the property read fails, on every other value the call of a missing method fails.
\<close>

fun callTrim :: "jsval \<Rightarrow> js_error + jstring" where
  "callTrim (JStr s) = Inr (trim s)"
| "callTrim v = Inl TypeError"

section \<open>The module-level caches\<close>

text \<open>
  \<^verbatim>\<open>new Map()\<close>: an association list in insertion order. \<^verbatim>\<open>set\<close> on a key that is present
  replaces the value where the key stands; a new key goes to the end. \<^verbatim>\<open>get\<close> reads and
  changes nothing.
\<close>

type_synonym ('k, 'v) js_map = "('k \<times> 'v) list"

fun map_set :: "'k \<Rightarrow> 'v \<Rightarrow> ('k, 'v) js_map \<Rightarrow> ('k, 'v) js_map" where
  "map_set k v [] = [(k, v)]"
| "map_set k v (e # m) = (if fst e = k then (k, v) # m else e # map_set k v m)"

definition map_get :: "('k, 'v) js_map \<Rightarrow> 'k \<Rightarrow> 'v option" where
  "map_get m k = map_of m k"

definition map_delete :: "'k \<Rightarrow> ('k, 'v) js_map \<Rightarrow> ('k, 'v) js_map" where
  "map_delete k m = filter (\<lambda>e. fst e \<noteq> k) m"

definition map_keys :: "('k, 'v) js_map \<Rightarrow> 'k list" where
  "map_keys m = map fst m"

record cache_config =
  MAX_SIZE :: nat
  TTL :: int
  MAX_HISTORY :: nat

definition CACHE_CONFIG :: cache_config where
  "CACHE_CONFIG = \<lparr>MAX_SIZE = 1000, TTL = 1000 * 60 * 60, MAX_HISTORY = 10\<rparr>"

text \<open>
  \<^verbatim>\<open>manageCache\<close>: when the map holds more than \<open>MAX_SIZE\<close> entries, the first key of the
  iteration order is deleted (\<^verbatim>\<open>cache.keys().next().value\<close>, undefined on an empty map,
  where the delete does nothing).
\<close>

definition manageCache :: "('k, 'v) js_map \<Rightarrow> ('k, 'v) js_map" where
  "manageCache cache =
     (if length cache > MAX_SIZE CACHE_CONFIG
      then (case map_keys cache of [] \<Rightarrow> cache | oldestKey # _ \<Rightarrow> map_delete oldestKey cache)
      else cache)"

text \<open>The write both caches perform: \<^verbatim>\<open>cache.set(key, v); manageCache(cache)\<close>.\<close>

definition cache_put :: "'k \<Rightarrow> 'v \<Rightarrow> ('k, 'v) js_map \<Rightarrow> ('k, 'v) js_map" where
  "cache_put k v cache = manageCache (map_set k v cache)"

type_synonym byte = "8 word"

record tts_entry =
  data :: "byte list"
  timestamp :: int

datatype role = System | User | Assistant

record chat_message =
  role :: role
  content :: "jstring option"

text \<open>The key \<^verbatim>\<open>processTranscript\<close> is handed as \<^verbatim>\<open>sessionId\<close>: the route passes \<^verbatim>\<open>true\<close>
  or nothing at all.\<close>

datatype session_key = KeyUndefined | KeyTrue | KeyStr jstring

text \<open>
  The state the module keeps between calls. \<open>now\<close> is what \<^verbatim>\<open>Date.now()\<close> returns
  (milliseconds). \<open>posts\<close> counts the requests sent to the synthesis service
  (\<^verbatim>\<open>axios.post\<close>); it is bookkeeping of the model, not a variable of the code.
  \<open>conversationCache\<close> holds references: a history is an array on the heap (\<open>arrays\<close>),
  and the map stores its address, so a \<^verbatim>\<open>push\<close> on the array read from the map is seen
  through the map.
\<close>

record world =
  now :: int
  ttsCache :: "(jstring, tts_entry) js_map"
  posts :: nat
  arrays :: "nat \<Rightarrow> chat_message list"
  next_addr :: nat
  conversationCache :: "(session_key, nat) js_map"

definition world0 :: world where
  "world0 = \<lparr>now = 0, ttsCache = [], posts = 0, arrays = (\<lambda>a. []), next_addr = 0,
             conversationCache = []\<rparr>"

definition advance :: "int \<Rightarrow> world \<Rightarrow> world" where
  "advance d w = w\<lparr>now := now w + d\<rparr>"

section \<open>Speech synthesis: generateTTS\<close>

text \<open>
  The cache read at the head of \<^verbatim>\<open>generateTTS\<close>:
  \<^verbatim>\<open>cached && (Date.now() - cached.timestamp) < CACHE_CONFIG.TTL\<close>.
\<close>

definition cached_tts :: "world \<Rightarrow> jstring \<Rightarrow> byte list option" where
  "cached_tts w txt =
     (case map_get (ttsCache w) txt of
        None \<Rightarrow> None
      | Some cached \<Rightarrow> if now w - timestamp cached < TTL CACHE_CONFIG then Some (data cached) else None)"

text \<open>
  What the synthesis service answers to one request, and how long the answer takes.
  axios rejects on a network failure and on a status outside 2xx; the code itself throws
  on a status other than 200.
\<close>

datatype http_outcome = NetworkFailure | HttpResponse nat "byte list"

record tts_call =
  outcome :: http_outcome
  latency :: int

text \<open>
  The guard \<^verbatim>\<open>if (!text?.trim()) throw ...\<close> at the head of \<^verbatim>\<open>generateTTS\<close>, before its
  \<^verbatim>\<open>try\<close>: on null and undefined the optional chain yields undefined and the guard throws
  its own error; a blank string does the same; on a value without a \<^verbatim>\<open>trim\<close> method the
  call is a TypeError.
\<close>

fun tts_guard :: "jsval \<Rightarrow> js_error + jstring" where
  "tts_guard JUndefined = Inl EmptyTextError"
| "tts_guard JNull = Inl EmptyTextError"
| "tts_guard (JStr s) = (if trim s = [] then Inl EmptyTextError else Inr s)"
| "tts_guard (JBool b) = Inl TypeError"
| "tts_guard (JObj kvs) = Inl TypeError"

text \<open>
  The rest of \<^verbatim>\<open>generateTTS(text)\<close>: the cache read, the request, the status check and the
  cache write; the \<^verbatim>\<open>catch\<close> logs and rethrows. One call runs without another call of
  the module in between.
\<close>

definition synthesize :: "tts_call \<Rightarrow> world \<Rightarrow> jstring \<Rightarrow> world \<times> (js_error + byte list)" where
  "synthesize ext w txt =
     (case cached_tts w txt of
        Some d \<Rightarrow> (w, Inr d)
      | None \<Rightarrow>
          (let w1 = w\<lparr>now := now w + latency ext, posts := posts w + 1\<rparr> in
           case outcome ext of
             NetworkFailure \<Rightarrow> (w1, Inl AxiosError)
           | HttpResponse status body \<Rightarrow>
               if status < 200 \<or> 300 \<le> status then (w1, Inl AxiosError)
               else if status \<noteq> 200 then (w1, Inl TTSFailedError)
               else (w1\<lparr>ttsCache :=
                          cache_put txt \<lparr>data = body, timestamp = now w1\<rparr> (ttsCache w1)\<rparr>,
                     Inr body)))"

definition generateTTS :: "tts_call \<Rightarrow> world \<Rightarrow> jsval \<Rightarrow> world \<times> (js_error + byte list)" where
  "generateTTS ext w v =
     (case tts_guard v of
        Inl e \<Rightarrow> (w, Inl e)
      | Inr txt \<Rightarrow> synthesize ext w txt)"

section \<open>The conversation orchestrator: processTranscript\<close>

definition prompt :: jstring where
  "prompt =
      js ''You are a professional and friendly AI dental receptionist for [Dental Office Name]. Your primary role is to:\<newline>'' @
      js ''\<newline>'' @
      js ''- Assist patients with scheduling appointments: Provide available dates and times, and help with rescheduling or canceling appointments.\<newline>'' @
      js ''- Provide office information: Share details about office hours, location, contact information, services offered, insurance accepted, and pricing.\<newline>'' @
      js ''- Onboard new patients: Collect necessary information such as name and contact details, and explain the onboarding process.\<newline>'' @
      js ''- Respond to general inquiries: Answer questions about dental procedures, office policies, and staff. Direct complex queries to the appropriate team member.\<newline>'' @
      js ''- Handle patient information with confidentiality: Comply with HIPAA regulations and ensure all sensitive information is processed securely.\<newline>'' @
      js ''\<newline>'' @
      js ''Communication Style:\<newline>'' @
      js ''\<newline>'' @
      js ''- Friendly and Approachable: Greet patients warmly with a positive tone.\<newline>'' @
      js ''- Clear and Concise: Provide easy-to-understand information without unnecessary jargon.\<newline>'' @
      js ''- Patient and Understanding: Show empathy, especially with anxious or upset patients.\<newline>'' @
      js ''- Professional: Reflect the values and standards of [Dental Office Name] in all interactions.''"

definition prompt_without_name :: jstring where
  "prompt_without_name =
     prompt @ js ''\<newline>IMPORTANT: We don't have the caller's name yet. Please ask for their name if they haven't provided it.''"

text \<open>
  What the language model answers: \<^verbatim>\<open>response.choices[0].message\<close>, with its text (or null)
  and its function call (or none). \<open>fc_arguments\<close> is what \<^verbatim>\<open>JSON.parse\<close> makes of the
  call's argument text: \<open>None\<close> when the text is not JSON and the parse throws.
\<close>

record function_call =
  fc_name :: jstring
  fc_arguments :: "jsval option"

record model_message =
  m_content :: "jstring option"
  m_function_call :: "function_call option"

record chat_request =
  messages :: "chat_message list"
  forced_extractName :: bool

text \<open>
  The services one invocation awaits. \<open>chat\<close> is the completion request under its ten
  second timeout: \<open>Inl\<close> for a timeout, a rejected request or an answer without a message.
  The three collaborators are the functions required from the appointment store
  (\<^verbatim>\<open>auth-service/db.js\<close>, outside the sources at hand); each may reject.
\<close>

record services =
  chat :: "chat_request \<Rightarrow> js_error + model_message"
  checkAvailability :: "jsval \<Rightarrow> js_error + jsval"
  nextTime :: "jsval \<Rightarrow> js_error + jsval"
  createAppointment :: "jstring option \<Rightarrow> jsval \<Rightarrow> jsval \<Rightarrow> js_error + jsval"

text \<open>The collaborator requests one invocation sends, in order (bookkeeping of the model).\<close>

datatype collab_call =
    CheckAvailability jsval
  | NextTime jsval
  | CreateAppointment "jstring option" jsval jsval

text \<open>
  The identifier \<^verbatim>\<open>phoneNumber\<close> in the argument list of \<^verbatim>\<open>createAppointment\<close>: the
  function has the parameters \<^verbatim>\<open>transcript\<close>, \<^verbatim>\<open>sessionId\<close> and \<^verbatim>\<open>currentName\<close>, the
  module declares no such variable, and the runtime has no such global. Reading it throws.
\<close>

definition phoneNumber_ref :: "js_error + jsval" where
  "phoneNumber_ref = Inl ReferenceError"

text \<open>A name counts as known when \<^verbatim>\<open>currentName\<close> is truthy.\<close>

fun known :: "jstring option \<Rightarrow> bool" where
  "known None = False"
| "known (Some n) = (n \<noteq> [])"

text \<open>
  The variables the inner \<^verbatim>\<open>try\<close> block assigns, the requests it has sent, and the
  exception that ended it, if one did.
\<close>

record interp =
  aiResponse :: "jstring option"
  extracted :: "jstring option"
  requests :: "collab_call list"
  thrown :: "js_error option"

definition raise :: "js_error \<Rightarrow> interp \<Rightarrow> interp" where
  "raise e st = st\<lparr>thrown := Some e\<rparr>"

definition say :: "jstring \<Rightarrow> interp \<Rightarrow> interp" where
  "say s st = st\<lparr>aiResponse := Some s\<rparr>"

definition sent :: "collab_call \<Rightarrow> interp \<Rightarrow> interp" where
  "sent c st = st\<lparr>requests := requests st @ [c]\<rparr>"

text \<open>The first \<^verbatim>\<open>if\<close> of the block: the name extraction.\<close>

definition extractName_step :: "jstring \<Rightarrow> jsval \<Rightarrow> interp \<Rightarrow> interp" where
  "extractName_step fname args st =
     (if fname = js ''extractName'' then
        (case getProp args (js ''confidence'') of
           Inl e \<Rightarrow> raise e st
         | Inr confidence \<Rightarrow>
             if truthy confidence then
               (case getProp args (js ''name'') of
                  Inl e \<Rightarrow> raise e st
                | Inr n \<Rightarrow>
                    (case callTrim n of
                       Inl e \<Rightarrow> raise e st
                     | Inr extractedName \<Rightarrow>
                         say (js ''Nice to meet you, '' @ extractedName @ js ''! How can I assist you today?'')
                           (st\<lparr>extracted := Some extractedName\<rparr>)))
             else st)
      else st)"

text \<open>The three actions of the scheduling function.\<close>

definition action_check :: "services \<Rightarrow> jsval \<Rightarrow> interp \<Rightarrow> interp" where
  "action_check env appointmentTime st =
     (let st1 = sent (CheckAvailability appointmentTime) st in
      case checkAvailability env appointmentTime of
        Inl e \<Rightarrow> raise e st1
      | Inr isAvailable \<Rightarrow>
          if truthy isAvailable
          then say (js ''Yes, '' @ toStr appointmentTime @ js '' is available. Would you like me to schedule this appointment for you?'') st1
          else say (js ''I apologize, but '' @ toStr appointmentTime @ js '' is not available. Would you like me to find the next available time?'') st1)"

definition action_suggest_next :: "services \<Rightarrow> jsval \<Rightarrow> interp \<Rightarrow> interp" where
  "action_suggest_next env appointmentTime st =
     (let st1 = sent (NextTime appointmentTime) st in
      case nextTime env appointmentTime of
        Inl e \<Rightarrow> raise e st1
      | Inr nextAvailableTime \<Rightarrow>
          if truthy nextAvailableTime
          then say (js ''The next available appointment time is '' @ toStr nextAvailableTime @ js ''. Would you like to schedule this time instead?'') st1
          else say (js ''I'm having trouble finding the next available appointment time. Could you please try a different date or time?'') st1)"

definition action_schedule :: "services \<Rightarrow> jstring option \<Rightarrow> jsval \<Rightarrow> interp \<Rightarrow> interp" where
  "action_schedule env currentName appointmentTime st =
     (let st1 = sent (CheckAvailability appointmentTime) st in
      case checkAvailability env appointmentTime of
        Inl e \<Rightarrow> raise e st1
      | Inr isAvailable \<Rightarrow>
          if truthy isAvailable then
            (case phoneNumber_ref of
               Inl e \<Rightarrow> raise e st1
             | Inr phoneNumber \<Rightarrow>
                 (let st2 = sent (CreateAppointment currentName phoneNumber appointmentTime) st1 in
                  case createAppointment env currentName phoneNumber appointmentTime of
                    Inl e \<Rightarrow> raise e st2
                  | Inr appointmentCreated \<Rightarrow>
                      if truthy appointmentCreated
                      then say (js ''Perfect! I've scheduled your appointment for '' @ toStr appointmentTime @ js ''. You'll receive a confirmation shortly. Is there anything else I can help you with?'') st2
                      else say (js ''I apologize, but I encountered an error while scheduling your appointment. Could you please try again?'') st2))
          else
            (let st2 = sent (NextTime appointmentTime) st1 in
             case nextTime env appointmentTime of
               Inl e \<Rightarrow> raise e st2
             | Inr nextAvailableTime \<Rightarrow>
                 if truthy nextAvailableTime
                 then say (js ''I apologize, but that time was just taken. The next available time is '' @ toStr nextAvailableTime @ js ''. Would you like this time instead?'') st2
                 else say (js ''I apologize, but that time is no longer available. Could you please provide another preferred time?'') st2))"

text \<open>
  The second \<^verbatim>\<open>if\<close> of the block: \<^verbatim>\<open>const { appointmentTime, action } = args\<close> and the
  dispatch on \<^verbatim>\<open>action\<close> with \<^verbatim>\<open>===\<close>; an action outside the three changes nothing.
\<close>

definition scheduleAppointment_step ::
  "services \<Rightarrow> jstring option \<Rightarrow> jstring \<Rightarrow> jsval \<Rightarrow> interp \<Rightarrow> interp" where
  "scheduleAppointment_step env currentName fname args st =
     (if fname = js ''scheduleAppointment'' then
        (case getProp args (js ''appointmentTime'') of
           Inl e \<Rightarrow> raise e st
         | Inr appointmentTime \<Rightarrow>
             (case getProp args (js ''action'') of
                Inl e \<Rightarrow> raise e st
              | Inr action \<Rightarrow>
                  if action = JStr (js ''check'') then action_check env appointmentTime st
                  else if action = JStr (js ''suggest_next'') then action_suggest_next env appointmentTime st
                  else if action = JStr (js ''schedule'') then action_schedule env currentName appointmentTime st
                  else st))
      else st)"

definition apology :: jstring where
  "apology = js ''I apologize, but I'm having trouble processing your appointment request. Could you please try again?''"

text \<open>
  The whole \<^verbatim>\<open>if (message.function_call) { try { ... } catch { ... } }\<close>: the parse, the two
  steps (the second runs only when the first threw nothing), and the \<^verbatim>\<open>catch\<close>, which
  replaces the reply and leaves the other variables as they stand.
\<close>

definition interpret_function_call ::
  "services \<Rightarrow> jstring option \<Rightarrow> function_call \<Rightarrow> interp \<Rightarrow> interp" where
  "interpret_function_call env currentName fc st =
     (let r = (case fc_arguments fc of
                 None \<Rightarrow> raise SyntaxError st
               | Some args \<Rightarrow>
                   (let st1 = extractName_step (fc_name fc) args st in
                    if thrown st1 = None
                    then scheduleAppointment_step env currentName (fc_name fc) args st1
                    else st1))
      in if thrown r = None then r else say apology r)"

record reply =
  response :: jstring
  extractedName :: "jstring option"

text \<open>\<^verbatim>\<open>conversationCache.get(sessionId) || []\<close>: the cached array itself, or a new empty one.\<close>

definition load_history :: "world \<Rightarrow> session_key \<Rightarrow> nat \<times> world" where
  "load_history w sessionId =
     (case map_get (conversationCache w) sessionId of
        Some a \<Rightarrow> (a, w)
      | None \<Rightarrow> (next_addr w, w\<lparr>arrays := (arrays w)(next_addr w := []), next_addr := next_addr w + 1\<rparr>))"

definition push :: "nat \<Rightarrow> chat_message \<Rightarrow> world \<Rightarrow> world" where
  "push a m w = w\<lparr>arrays := (arrays w)(a := arrays w a @ [m])\<rparr>"

text \<open>
  \<^verbatim>\<open>if (length > MAX_HISTORY) conversationHistory = conversationHistory.slice(-MAX_HISTORY)\<close>:
  the slice is a new array holding the last \<open>MAX_HISTORY\<close> elements.
\<close>

definition trim_history :: "nat \<Rightarrow> world \<Rightarrow> nat \<times> world" where
  "trim_history a w =
     (if length (arrays w a) > MAX_HISTORY CACHE_CONFIG
      then (next_addr w,
            w\<lparr>arrays := (arrays w)(next_addr w :=
                   drop (length (arrays w a) - MAX_HISTORY CACHE_CONFIG) (arrays w a)),
              next_addr := next_addr w + 1\<rparr>)
      else (a, w))"

text \<open>\<^verbatim>\<open>if (!aiResponse) aiResponse = message.content || 'How can I assist you today?'\<close>.\<close>

definition final_response :: "jstring option \<Rightarrow> jstring option \<Rightarrow> jstring" where
  "final_response ai c =
     (if ai = None \<or> ai = Some [] then
        (if c = None \<or> c = Some [] then js ''How can I assist you today?'' else the c)
      else the ai)"

text \<open>
  The variables of the inner \<^verbatim>\<open>try\<close> block when it is entered:
  \<^verbatim>\<open>let aiResponse = message.content; let extractedName = null\<close>.
\<close>

definition interp0 :: "model_message \<Rightarrow> interp" where
  "interp0 message =
     \<lparr>aiResponse = m_content message, extracted = None, requests = [], thrown = None\<rparr>"

text \<open>\<^verbatim>\<open>{ role: 'user', content: transcript.toString().trim() }\<close>.\<close>

definition userMessage :: "jstring \<Rightarrow> chat_message" where
  "userMessage transcript = \<lparr>role = User, content = Some (trim transcript)\<rparr>"

text \<open>
  The completion request: the system message, which asks for the name while none is known,
  the history without messages of null content, and the function the model is held to
  (\<^verbatim>\<open>function_call: currentName ? 'auto' : { name: 'extractName' }\<close>).
\<close>

definition build_request :: "jstring option \<Rightarrow> chat_message list \<Rightarrow> chat_request" where
  "build_request currentName conversationHistory =
     \<lparr>messages =
        \<lparr>role = System,
         content = Some (if known currentName then prompt else prompt_without_name)\<rparr>
        # filter (\<lambda>m. content m \<noteq> None) conversationHistory,
      forced_extractName = (\<not> known currentName)\<rparr>"

text \<open>
  The body of the outer \<^verbatim>\<open>try\<close>. The only statement of it that can throw outside the inner
  \<^verbatim>\<open>try\<close> is the awaited completion request. One invocation runs without another one
  in between.
\<close>

definition processTranscript_try ::
  "services \<Rightarrow> world \<Rightarrow> jstring \<Rightarrow> session_key \<Rightarrow> jstring option
     \<Rightarrow> world \<times> collab_call list \<times> (js_error + reply)" where
  "processTranscript_try env w transcript sessionId currentName =
     (let (a, w1) = load_history w sessionId;
          w2 = push a (userMessage transcript) w1
      in case chat env (build_request currentName (arrays w2 a)) of
           Inl e \<Rightarrow> (w2, [], Inl e)
         | Inr message \<Rightarrow>
             (let st = (case m_function_call message of
                          None \<Rightarrow> interp0 message
                        | Some fc \<Rightarrow> interpret_function_call env currentName fc (interp0 message));
                  answer = final_response (aiResponse st) (m_content message);
                  w3 = push a \<lparr>role = Assistant, content = Some answer\<rparr> w2;
                  (a', w4) = trim_history a w3;
                  w5 = w4\<lparr>conversationCache := cache_put sessionId a' (conversationCache w4)\<rparr>
              in (w5, requests st, Inr \<lparr>response = answer, extractedName = extracted st\<rparr>)))"

text \<open>
  \<^verbatim>\<open>processTranscript(transcript, sessionId, currentName = null)\<close>: the guard for a blank
  transcript, the \<^verbatim>\<open>try\<close>, and the \<^verbatim>\<open>catch\<close> that answers every exception of the body.
  The transcript is the text of a recognised utterance, a string, on which the guard
  \<^verbatim>\<open>!transcript?.trim()\<close> cannot throw.
\<close>

definition processTranscript ::
  "services \<Rightarrow> world \<Rightarrow> jstring \<Rightarrow> session_key \<Rightarrow> jstring option
     \<Rightarrow> world \<times> collab_call list \<times> (js_error + reply)" where
  "processTranscript env w transcript sessionId currentName =
     (if trim transcript = [] then
        (w, [], Inr \<lparr>response = js ''I did not catch that. Could you please repeat?'',
                     extractedName = None\<rparr>)
      else
        (case processTranscript_try env w transcript sessionId currentName of
           (w', calls, Inl e) \<Rightarrow>
             (w', calls, Inr \<lparr>response = js ''Sorry, I am unable to process your request at the moment.'',
                             extractedName = None\<rparr>)
         | (w', calls, Inr r) \<Rightarrow> (w', calls, Inr r)))"

text \<open>The history the cache holds for a session: the array its entry refers to.\<close>

definition persisted_history :: "world \<Rightarrow> session_key \<Rightarrow> chat_message list option" where
  "persisted_history w sessionId = map_option (arrays w) (map_get (conversationCache w) sessionId)"

text \<open>The history an invocation starts from: the cached one, or an empty one.\<close>

definition history_on_entry :: "world \<Rightarrow> session_key \<Rightarrow> chat_message list" where
  "history_on_entry w sessionId =
     (case persisted_history w sessionId of None \<Rightarrow> [] | Some h \<Rightarrow> h)"

section \<open>The call session: handleWebSocket\<close>

datatype ready_state = CONNECTING | OPEN | CLOSING | CLOSED

text \<open>
  A live transcription connection (\<^verbatim>\<open>deepgram.listen.live\<close>): its ready state, the audio
  chunks handed to \<^verbatim>\<open>dgLive.send\<close>, and whether \<^verbatim>\<open>dgLive.finish()\<close> was called.
\<close>

record dg_connection =
  dg_readyState :: ready_state
  dg_received :: "byte list list"
  dg_finished :: bool

text \<open>
  What the session writes to the socket with \<^verbatim>\<open>ws.send\<close>: a media message (stream id and
  one frame, whose base64 text stands for its bytes) or a mark message (stream id and a fresh
  label). The last field is the turn the message belongs to: the \<^verbatim>\<open>index\<close> argument of the
  \<^verbatim>\<open>sendAudioFrames\<close> call it comes from. It is bookkeeping of the model.
\<close>

datatype out_message =
    Media "jstring option" "byte list" nat
  | Mark "jstring option" nat

text \<open>
  A \<^verbatim>\<open>sendBufferedAudio\<close> call suspended on its pacing timer, with its loop variable, the
  turn index of the call, and a number that tells its timer from those of other calls.
\<close>

record send_task =
  task_id :: nat
  task_index :: nat
  task_audio :: "byte list"
  task_streamSid :: "jstring option"
  task_i :: nat

text \<open>
  An event handler suspended on an \<^verbatim>\<open>await\<close>: on \<^verbatim>\<open>generateTTS\<close> (all three handlers go on
  with the same \<^verbatim>\<open>sendAudioFrames\<close> call), on \<^verbatim>\<open>processTranscript(transcript, true)\<close>, or on
  \<^verbatim>\<open>processTranscript(transcript)\<close>.
\<close>

datatype pending = AwaitTTS | AwaitName jstring | AwaitReply

text \<open>An invocation of the orchestrator by the session, with the arguments it receives.\<close>

record orch_call =
  oc_transcript :: jstring
  oc_sessionId :: session_key
  oc_currentName :: "jstring option"

text \<open>
  The closure variables of \<^verbatim>\<open>handleWebSocket\<close>, the socket's ready state, the transcription
  connections created so far (\<open>dgLive\<close> refers to the latest), the suspended handlers and
  transmissions, and three logs kept by the model: the messages sent, the orchestrator
  invocations, and the exceptions that ended a handler.
\<close>

record session =
  streamSid :: "jstring option"
  callSid :: "jstring option"
  dgLive :: "nat option"
  audioBufferQueue :: "byte list list"
  phoneNumber :: "jstring option"
  interactionCount :: nat
  callerName :: jsval
  ws_readyState :: ready_state
  conns :: "dg_connection list"
  awaiting :: "pending list"
  tasks :: "send_task list"
  send_calls :: nat
  outbound :: "out_message list"
  orch_calls :: "orch_call list"
  faults :: "js_error list"

definition session0 :: session where
  "session0 = \<lparr>streamSid = None, callSid = None, dgLive = None, audioBufferQueue = [],
                phoneNumber = None, interactionCount = 0, callerName = JStr [],
                ws_readyState = OPEN, conns = [], awaiting = [], tasks = [], send_calls = 0,
                outbound = [], orch_calls = [], faults = []\<rparr>"

definition frameSize :: nat where
  "frameSize = 160"

text \<open>
  The end of \<^verbatim>\<open>sendBufferedAudio\<close> and the statement after it in \<^verbatim>\<open>sendAudioFrames\<close>: the
  mark, sent only on an open socket, then \<^verbatim>\<open>interactionCount++\<close>.
\<close>

definition after_loop :: "send_task \<Rightarrow> session \<Rightarrow> session" where
  "after_loop t s =
     (let s1 = (if ws_readyState s = OPEN
                then s\<lparr>outbound := outbound s @ [Mark (task_streamSid t) (task_index t)]\<rparr>
                else s)
      in s1\<lparr>interactionCount := interactionCount s1 + 1\<rparr>)"

text \<open>
  One pass of the \<^verbatim>\<open>for\<close> loop from its test: the loop ends when \<open>i\<close> has reached the
  buffer's length, breaks when the socket is not open, and otherwise sends the frame
  \<^verbatim>\<open>audioBuffer.slice(i, i + frameSize)\<close> and suspends on the 20 ms timer.
\<close>

definition loop_pass :: "send_task \<Rightarrow> session \<Rightarrow> session" where
  "loop_pass t s =
     (if task_i t < length (task_audio t) then
        (if ws_readyState s = OPEN
         then s\<lparr>outbound := outbound s @
                    [Media (task_streamSid t) (take frameSize (drop (task_i t) (task_audio t)))
                       (task_index t)],
                tasks := tasks s @ [t]\<rparr>
         else after_loop t s)
      else after_loop t s)"

text \<open>
  \<^verbatim>\<open>sendAudioFrames(audioBuffer, ws, streamSid, index)\<close>: the gate, and the transmission up
  to its first suspension.
\<close>

definition sendAudioFrames :: "byte list \<Rightarrow> jstring option \<Rightarrow> nat \<Rightarrow> session \<Rightarrow> session" where
  "sendAudioFrames audioBuffer sid index s =
     (let s1 = s\<lparr>send_calls := send_calls s + 1\<rparr> in
      if index = interactionCount s \<and> ws_readyState s = OPEN
      then loop_pass \<lparr>task_id = send_calls s, task_index = index, task_audio = audioBuffer,
                      task_streamSid = sid, task_i = 0\<rparr> s1
      else s1)"

text \<open>The call as all three call sites write it: the index is the counter read at the call.\<close>

definition send_reply :: "byte list \<Rightarrow> session \<Rightarrow> session" where
  "send_reply audioBuffer s = sendAudioFrames audioBuffer (streamSid s) (interactionCount s) s"

text \<open>The pacing timer of a suspended transmission fires: \<open>i += frameSize\<close> and the next pass.\<close>

definition timer_fired :: "nat \<Rightarrow> session \<Rightarrow> session" where
  "timer_fired n s =
     (case filter (\<lambda>t. task_id t = n) (tasks s) of
        [] \<Rightarrow> s
      | t # _ \<Rightarrow>
          loop_pass (t\<lparr>task_i := task_i t + frameSize\<rparr>)
            (s\<lparr>tasks := filter (\<lambda>t. task_id t \<noteq> n) (tasks s)\<rparr>))"

text \<open>
  The messages of the media socket the handler distinguishes; a start message carries the
  stream id, the call id and the custom parameter \<^verbatim>\<open>phoneNumber\<close>, if any. \<open>Unknown\<close> is a
  message with another event name, \<open>Malformed\<close> one that is not JSON.
\<close>

datatype ws_message =
    Start jstring jstring "jstring option"
  | MediaIn "byte list"
  | Stop
  | Unknown
  | Malformed

definition dg_finish :: "session \<Rightarrow> session" where
  "dg_finish s =
     (case dgLive s of
        None \<Rightarrow> s
      | Some c \<Rightarrow> s\<lparr>conns := (conns s)[c := (conns s ! c)\<lparr>dg_finished := True\<rparr>]\<rparr>)"

text \<open>\<^verbatim>\<open>ws.close()\<close>: the socket leaves the open state at once.\<close>

definition ws_close :: "session \<Rightarrow> session" where
  "ws_close s = s\<lparr>ws_readyState := (if ws_readyState s = CLOSED then CLOSED else CLOSING)\<rparr>"

definition dg_is_open :: "session \<Rightarrow> bool" where
  "dg_is_open s =
     (case dgLive s of
        None \<Rightarrow> False
      | Some c \<Rightarrow> c < length (conns s) \<and> dg_readyState (conns s ! c) = OPEN)"

text \<open>
  An exception that leaves a handler ends it. The handlers are \<^verbatim>\<open>async\<close> functions whose
  promise nobody awaits: the rejection is reported by the runtime and the session goes on
  with its next event. The model logs the exception.
\<close>

definition fault :: "js_error \<Rightarrow> session \<Rightarrow> session" where
  "fault e s = s\<lparr>faults := faults s @ [e]\<rparr>"

text \<open>
  The identifier \<^verbatim>\<open>deepgram\<close> in the start branch of the message handler
  (\<^verbatim>\<open>dgLive = deepgram.listen.live({...})\<close>): the route module imports \<^verbatim>\<open>createClient\<close> and
  \<^verbatim>\<open>LiveTranscriptionEvents\<close> from the SDK, calls \<^verbatim>\<open>createClient\<close> nowhere and declares no
  variable of that name; the client of \<^verbatim>\<open>deepgramService.js\<close> is local to that module and
  not exported. Reading the identifier throws.
\<close>

definition deepgram_ref :: "js_error + unit" where
  "deepgram_ref = Inl ReferenceError"

text \<open>
  \<^verbatim>\<open>ws.on('message', ...)\<close>. \<^verbatim>\<open>JSON.parse\<close> throws on a message that is not JSON. The
  start branch stores the two ids and the phone number and
  then reads \<^verbatim>\<open>deepgram\<close>: the exception ends the handler there, before \<open>dgLive\<close> is
  assigned and before any handler of a transcription connection is registered. The media
  branch hands the chunk to an open connection and queues it otherwise. The stop branch
  finishes the connection, if there is one, and closes the socket.
\<close>

fun on_message :: "ws_message \<Rightarrow> session \<Rightarrow> session" where
  "on_message (Start sid csid custom) s =
     (let s1 = s\<lparr>streamSid := Some sid, callSid := Some csid,
                  phoneNumber := (case custom of
                                    None \<Rightarrow> phoneNumber s
                                  | Some p \<Rightarrow> if p = [] then phoneNumber s else Some p)\<rparr>
      in case deepgram_ref of
           Inl e \<Rightarrow> fault e s1
         | Inr client \<Rightarrow>
             s1\<lparr>dgLive := Some (length (conns s1)),
                conns := conns s1 @
                  [\<lparr>dg_readyState = CONNECTING, dg_received = [], dg_finished = False\<rparr>]\<rparr>)"
| "on_message (MediaIn audioBufferData) s =
     (if dg_is_open s
      then s\<lparr>conns := (conns s)[the (dgLive s) :=
                 (conns s ! the (dgLive s))\<lparr>dg_received :=
                    dg_received (conns s ! the (dgLive s)) @ [audioBufferData]\<rparr>]\<rparr>
      else s\<lparr>audioBufferQueue := audioBufferQueue s @ [audioBufferData]\<rparr>)"
| "on_message Stop s = ws_close (dg_finish s)"
| "on_message Unknown s = s"
| "on_message Malformed s = fault SyntaxError s"

text \<open>\<^verbatim>\<open>ws.on('close', ...)\<close>, run when the socket has closed.\<close>

definition on_close :: "session \<Rightarrow> session" where
  "on_close s = (dg_finish (s\<lparr>ws_readyState := CLOSED\<rparr>))\<lparr>audioBufferQueue := []\<rparr>"

definition initialMessage :: jstring where
  "initialMessage = js ''Hello! May I know your name, please?''"

text \<open>
  A handler calls \<^verbatim>\<open>generateTTS\<close> and awaits it: the guard of \<^verbatim>\<open>generateTTS\<close> runs at
  the call, and an argument it refuses ends the handler.
\<close>

definition await_tts :: "jsval \<Rightarrow> session \<Rightarrow> session" where
  "await_tts v s =
     (case tts_guard v of
        Inl e \<Rightarrow> fault e s
      | Inr txt \<Rightarrow> s\<lparr>awaiting := awaiting s @ [AwaitTTS]\<rparr>)"

text \<open>
  The handlers the start branch would register on the connection it creates. The handler of
  the Open event asks for the greeting's audio; nothing else happens in it.
\<close>

definition on_dg_open :: "nat \<Rightarrow> session \<Rightarrow> session" where
  "on_dg_open c s =
     await_tts (JStr initialMessage)
       (s\<lparr>conns := (conns s)[c := (conns s ! c)\<lparr>dg_readyState := OPEN\<rparr>]\<rparr>)"

definition on_dg_close :: "nat \<Rightarrow> session \<Rightarrow> session" where
  "on_dg_close c s = s\<lparr>conns := (conns s)[c := (conns s ! c)\<lparr>dg_readyState := CLOSED\<rparr>]\<rparr>"

definition invoke :: "jstring \<Rightarrow> session_key \<Rightarrow> pending \<Rightarrow> session \<Rightarrow> session" where
  "invoke transcript key p s =
     s\<lparr>orch_calls := orch_calls s @
          [\<lparr>oc_transcript = transcript, oc_sessionId = key, oc_currentName = None\<rparr>],
       awaiting := awaiting s @ [p]\<rparr>"

text \<open>
  The handler of the Transcript event up to its first \<^verbatim>\<open>await\<close>: only a final transcript
  with text is taken up; without a caller name the orchestrator is called as
  \<^verbatim>\<open>processTranscript(transcript, true)\<close>, with one as \<^verbatim>\<open>processTranscript(transcript)\<close>. In
  both calls the third parameter takes its default, null.
\<close>

definition on_transcript :: "bool \<Rightarrow> jstring \<Rightarrow> session \<Rightarrow> session" where
  "on_transcript is_final transcript s =
     (if is_final \<and> trim transcript \<noteq> [] then
        (if truthy (callerName s) then invoke transcript KeyUndefined AwaitReply s
         else invoke transcript KeyTrue (AwaitName transcript) s)
      else s)"

text \<open>The object \<^verbatim>\<open>processTranscript\<close> returns, as the awaiting handler receives it.\<close>

definition reply_value :: "reply \<Rightarrow> jsval" where
  "reply_value r =
     JObj [(js ''response'', JStr (response r)),
           (js ''extractedName'', (case extractedName r of None \<Rightarrow> JNull | Some n \<Rightarrow> JStr n))]"

text \<open>
  The identifier \<^verbatim>\<open>updateLeadInfo\<close>: the route module neither declares nor imports it, so
  the call throws before anything is awaited.
\<close>

definition updateLeadInfo_ref :: "js_error + unit" where
  "updateLeadInfo_ref = Inl ReferenceError"

definition drop_pending :: "nat \<Rightarrow> session \<Rightarrow> session" where
  "drop_pending i s = s\<lparr>awaiting := take i (awaiting s) @ drop (Suc i) (awaiting s)\<rparr>"

text \<open>
  The orchestrator's promise of the suspended handler \<open>i\<close> resolves with \<open>r\<close>. In the name
  branch the awaited value is tested for truth and stored as the caller name; in the other
  branch it is handed to \<^verbatim>\<open>generateTTS\<close>.
\<close>

definition on_orchestrator_settled :: "nat \<Rightarrow> reply \<Rightarrow> session \<Rightarrow> session" where
  "on_orchestrator_settled i r s =
     (if i < length (awaiting s) then
        (case awaiting s ! i of
           AwaitTTS \<Rightarrow> s
         | AwaitName transcript \<Rightarrow>
             (let extractedName = reply_value r; s1 = drop_pending i s in
              if truthy extractedName then
                (let s2 = s1\<lparr>callerName := extractedName\<rparr> in
                 case updateLeadInfo_ref of
                   Inl e \<Rightarrow> fault e s2
                 | Inr u \<Rightarrow>
                     await_tts (JStr (js ''Nice to meet you, '' @ toStr (callerName s2) @ js ''. How can I assist you today?'')) s2)
              else invoke transcript KeyUndefined AwaitReply s1)
         | AwaitReply \<Rightarrow> await_tts (reply_value r) (drop_pending i s))
      else s)"

text \<open>
  The synthesis promise of the suspended handler \<open>i\<close> settles: a rejection ends the
  handler, a buffer goes to \<^verbatim>\<open>sendAudioFrames\<close>.
\<close>

definition on_tts_settled :: "nat \<Rightarrow> js_error + byte list \<Rightarrow> session \<Rightarrow> session" where
  "on_tts_settled i res s =
     (if i < length (awaiting s) then
        (case awaiting s ! i of
           AwaitTTS \<Rightarrow>
             (case res of
                Inl e \<Rightarrow> fault e (drop_pending i s)
              | Inr ttsAudioBuffer \<Rightarrow> send_reply ttsAudioBuffer (drop_pending i s))
         | AwaitName transcript \<Rightarrow> s
         | AwaitReply \<Rightarrow> s)
      else s)"

text \<open>
  The events of one session, each handled to its next suspension. An event of a
  transcription connection runs the handler registered on that connection, so it can only
  occur for a connection that was created; a promise settles only for a handler that awaits
  it, and a timer fires only for a transmission that waits on it. The keep-alive ping sends
  no message of the protocol and is left out; so is the listener for a \<^verbatim>\<open>'stop'\<close> event of
  the socket object, which the socket never emits.
\<close>

datatype event =
    Message ws_message
  | SocketClosed
  | DgOpened nat
  | DgClosed nat
  | DgTranscript nat bool jstring
  | OrchestratorSettled nat reply
  | TTSSettled nat "js_error + byte list"
  | TimerFired nat

fun step :: "event \<Rightarrow> session \<Rightarrow> session" where
  "step (Message m) s = on_message m s"
| "step SocketClosed s = on_close s"
| "step (DgOpened c) s = (if c < length (conns s) then on_dg_open c s else s)"
| "step (DgClosed c) s = (if c < length (conns s) then on_dg_close c s else s)"
| "step (DgTranscript c is_final transcript) s =
     (if c < length (conns s) then on_transcript is_final transcript s else s)"
| "step (OrchestratorSettled i r) s = on_orchestrator_settled i r s"
| "step (TTSSettled i res) s = on_tts_settled i res s"
| "step (TimerFired n) s = timer_fired n s"

fun run :: "event list \<Rightarrow> session \<Rightarrow> session" where
  "run [] s = s"
| "run (ev # evs) s = run evs (step ev s)"

section \<open>Auxiliary notions for the properties\<close>

text \<open>An answer of the synthesis service that \<^verbatim>\<open>generateTTS\<close> turns into an exception.\<close>

fun failed :: "http_outcome \<Rightarrow> bool" where
  "failed NetworkFailure = True"
| "failed (HttpResponse status body) = (status \<noteq> 200)"

text \<open>
  Operations on one cache, and a cache run with a record of insertions kept beside it: for
  every key the number of the operation that put it into the map (a \<^verbatim>\<open>set\<close> of a key
  already present does not count, a \<^verbatim>\<open>get\<close> counts for nothing). The entries are the
  code's; the record is only read by the properties.
\<close>

datatype ('k, 'v) cache_op = Put 'k 'v | Get 'k

record ('k, 'v) traced =
  entries :: "('k, 'v) js_map"
  born :: "'k \<Rightarrow> nat"
  ticks :: nat

fun traced_apply :: "('k, 'v) cache_op \<Rightarrow> ('k, 'v) traced \<Rightarrow> ('k, 'v) traced" where
  "traced_apply (Put k v) t =
     \<lparr>entries = cache_put k v (entries t),
      born = (if k \<in> set (map_keys (entries t)) then born t else (born t)(k := ticks t)),
      ticks = ticks t + 1\<rparr>"
| "traced_apply (Get k) t = t\<lparr>ticks := ticks t + 1\<rparr>"

definition traced_run :: "('k, 'v) cache_op list \<Rightarrow> ('k, 'v) traced" where
  "traced_run ops =
     foldl (\<lambda>t op. traced_apply op t) \<lparr>entries = [], born = (\<lambda>k. 0), ticks = 0\<rparr> ops"

definition traced_inv :: "('k, 'v) traced \<Rightarrow> bool" where
  "traced_inv t =
     (distinct (map_keys (entries t))
      \<and> sorted_wrt (<) (map (born t) (map_keys (entries t)))
      \<and> list_all (\<lambda>k. born t k < ticks t) (map_keys (entries t))
      \<and> length (entries t) \<le> MAX_SIZE CACHE_CONFIG)"

text \<open>
  The order of the turns on the socket: a frame of turn \<open>n + 1\<close> is sent only when a mark
  of turn \<open>n\<close> has been sent before it. \<open>marked\<close> lists the turns whose mark is out.
\<close>

fun in_order :: "nat list \<Rightarrow> out_message list \<Rightarrow> bool" where
  "in_order marked [] = True"
| "in_order marked (Mark sid n # ms) = in_order (n # marked) ms"
| "in_order marked (Media sid frame n # ms) = ((n = 0 \<or> n - 1 \<in> set marked) \<and> in_order marked ms)"

text \<open>The turns whose mark is on the socket.\<close>

fun marks :: "out_message list \<Rightarrow> nat list" where
  "marks [] = []"
| "marks (Mark sid n # ms) = n # marks ms"
| "marks (Media sid frame n # ms) = marks ms"







subsection \<open>Concrete inputs\<close>

definition hello_audio :: "byte list" where
  "hello_audio = [0x7F, 0x80, 0xFF, 0x00]"

definition service_ok :: tts_call where
  "service_ok = \<lparr>outcome = HttpResponse 200 hello_audio, latency = 350\<rparr>"

definition service_down :: tts_call where
  "service_down = \<lparr>outcome = NetworkFailure, latency = 30000\<rparr>"

definition stale_world :: world where
  "stale_world =
     advance (TTL CACHE_CONFIG + 1) (fst (generateTTS service_ok world0 (JStr (js ''Hello''))))"

definition fill :: "nat \<Rightarrow> (nat, nat) cache_op list" where
  "fill n = map (\<lambda>i. Put i (i * i)) [0..<n]"

text \<open>An appointment store with every slot free and every booking accepted, behind a
  model that answers \<open>m\<close>; and a model whose request fails.\<close>

definition answering :: "model_message \<Rightarrow> services" where
  "answering m =
     \<lparr>chat = (\<lambda>request. Inr m),
      checkAvailability = (\<lambda>t. Inr (JBool True)),
      nextTime = (\<lambda>t. Inr JNull),
      createAppointment = (\<lambda>n p t. Inr (JBool True))\<rparr>"

definition model_down :: services where
  "model_down =
     \<lparr>chat = (\<lambda>request. Inl ModelCallError),
      checkAvailability = (\<lambda>t. Inr (JBool True)),
      nextTime = (\<lambda>t. Inr JNull),
      createAppointment = (\<lambda>n p t. Inr (JBool True))\<rparr>"


definition asks_schedule :: model_message where
  "asks_schedule =
     \<lparr>m_content = None,
      m_function_call = Some \<lparr>fc_name = js ''scheduleAppointment'',
         fc_arguments = Some (JObj [(js ''appointmentTime'', JStr (js ''2025-01-15T10:00:00Z'')),
                                    (js ''action'', JStr (js ''schedule''))])\<rparr>\<rparr>"

definition plain_answer :: model_message where
  "plain_answer = \<lparr>m_content = Some (js ''We are open from 9 to 5.''), m_function_call = None\<rparr>"

definition broken_call :: model_message where
  "broken_call =
     \<lparr>m_content = None,
      m_function_call = Some \<lparr>fc_name = js ''scheduleAppointment'', fc_arguments = None\<rparr>\<rparr>"

definition hello_turn :: "services \<Rightarrow> world \<Rightarrow> world" where
  "hello_turn env w = fst (processTranscript env w (js ''hello'') (KeyStr (js ''MZ1'')) (Some (js ''Alex'')))"

definition five_turns :: world where
  "five_turns = foldl (\<lambda>w env. hello_turn env w) world0 (replicate 5 (answering plain_answer))"


definition five_frames :: "byte list" where
  "five_frames =
     replicate 160 1 @ replicate 160 2 @ replicate 160 3 @ replicate 160 4 @ replicate 160 5"

definition start_message :: event where
  "start_message = Message (Start (js ''MZ1'') (js ''CA1'') (Some (js ''+15551234567'')))"



text \<open>
  The transmitter on its own: the closure state in which \<^verbatim>\<open>sendAudioFrames\<close> was called
  with a buffer of five frames for turn 0 and two of its timers have fired, so that three
  frames are out.
\<close>

definition greeting_at_frame_3 :: session where
  "greeting_at_frame_3 =
     run [TimerFired 0, TimerFired 0] (sendAudioFrames five_frames (Some (js ''MZ1'')) 0 session0)"

section \<open>Properties of strings\<close>

lemma unat_of_char: "unat (of_char c :: code_unit) = of_char c"
proof -
  have "(of_char c :: nat) < 256" by (rule nat_of_char_less_256)
  also have "(256::nat) \<le> 2 ^ LENGTH(16)" by simp
  finally have "(of_char c :: nat) < 2 ^ LENGTH(16)" .
  then have "unat (of_nat (of_char c) :: code_unit) = of_char c" by (rule of_nat_inverse[OF refl])
  then show ?thesis by (simp add: of_nat_of_char)
qed

text \<open>Different ASCII texts are different strings.\<close>

lemma js_inject [simp]: "js a = js b \<longleftrightarrow> a = b"
proof
  assume "js a = js b"
  then have "map unat (js a) = map unat (js b)" by simp
  then have "map (of_char :: char \<Rightarrow> nat) a = map of_char b"
    by (simp add: js_def unat_of_char comp_def)
  then show "a = b" by (simp add: inj_map_eq_map inj_of_char)
qed simp

lemma js_Nil [simp]: "js s = [] \<longleftrightarrow> s = []"
  by (simp add: js_def)

lemma js_append: "js a @ js b = js (a @ b)"
  by (simp add: js_def)

text \<open>The no-break space, an em space and the byte order mark are stripped like a blank.\<close>

lemma trim_unicode_space: "trim ([0x00A0, 0x2003] @ js ''Alex'' @ [0xFEFF, 0x2028]) = js ''Alex''"
  by (simp add: trim_def is_space_def js_def)

section \<open>Properties of the caches\<close>

lemma map_keys_map_set:
  "map_keys (map_set k v m) = (if k \<in> set (map_keys m) then map_keys m else map_keys m @ [k])"
  by (induction m) (auto simp: map_keys_def)

lemma length_map_set:
  "length (map_set k v m) = (if k \<in> set (map_keys m) then length m else Suc (length m))"
  by (induction m) (auto simp: map_keys_def)

lemma map_set_new: "k \<notin> set (map_keys m) \<Longrightarrow> map_set k v m = m @ [(k, v)]"
  by (induction m) (auto simp: map_keys_def)

lemma map_of_map_set: "map_of (map_set k v m) k' = (if k' = k then Some v else map_of m k')"
  by (induction m) auto

lemma map_of_map_delete: "map_of (map_delete k0 m) k = (if k = k0 then None else map_of m k)"
  by (induction m) (auto simp: map_delete_def)

lemma filter_absent_key: "a \<notin> fst ` set m \<Longrightarrow> filter (\<lambda>x. fst x \<noteq> a) m = m"
  by (induction m) auto

text \<open>With every key stored once, the eviction removes the head of the map and nothing else.\<close>

lemma manageCache_distinct:
  "distinct (map_keys m) \<Longrightarrow> manageCache m = (if MAX_SIZE CACHE_CONFIG < length m then tl m else m)"
proof (cases m)
  case Nil
  then show ?thesis by (simp add: manageCache_def map_keys_def)
next
  case (Cons e m')
  assume "distinct (map_keys m)"
  then have "fst e \<notin> fst ` set m'" using Cons by (simp add: map_keys_def)
  then have "filter (\<lambda>x. fst x \<noteq> fst e) m' = m'"
    by (rule filter_absent_key)
  then show ?thesis using Cons by (simp add: manageCache_def map_keys_def map_delete_def)
qed

text \<open>A write never leaves more than \<open>MAX_SIZE\<close> entries in a map that had no more before.\<close>

lemma cache_put_bounded:
  assumes "length m \<le> MAX_SIZE CACHE_CONFIG"
  shows "length (cache_put k v m) \<le> MAX_SIZE CACHE_CONFIG"
proof (cases "MAX_SIZE CACHE_CONFIG < length (map_set k v m)")
  case False
  then show ?thesis by (simp add: cache_put_def manageCache_def)
next
  case True
  then obtain e m' where em: "map_set k v m = e # m'" by (cases "map_set k v m") auto
  have b: "length m' \<le> MAX_SIZE CACHE_CONFIG"
    using assms em length_map_set[of k v m] by (auto split: if_splits)
  have "length (filter (\<lambda>x. fst x \<noteq> fst e) m') \<le> MAX_SIZE CACHE_CONFIG"
    by (rule le_trans[OF length_filter_le b])
  then show ?thesis using True em
    by (simp add: cache_put_def manageCache_def map_keys_def map_delete_def)
qed

text \<open>A value just written is read back, whatever the eviction removed.\<close>

lemma map_get_cache_put:
  assumes "length m \<le> MAX_SIZE CACHE_CONFIG"
  shows "map_get (cache_put k v m) k = Some v"
proof (cases "k \<in> set (map_keys m)")
  case True
  then have "length (map_set k v m) = length m" by (simp add: length_map_set)
  then have "manageCache (map_set k v m) = map_set k v m"
    using assms by (simp add: manageCache_def)
  then show ?thesis by (simp add: map_get_def cache_put_def map_of_map_set)
next
  case False
  show ?thesis
  proof (cases "MAX_SIZE CACHE_CONFIG < length (map_set k v m)")
    case False
    then have "manageCache (map_set k v m) = map_set k v m" by (simp add: manageCache_def)
    then show ?thesis by (simp add: map_get_def cache_put_def map_of_map_set)
  next
    case True
    then have "m \<noteq> []" by (auto simp: CACHE_CONFIG_def)
    then obtain e m' where m: "m = e # m'" by (cases m) auto
    have ne: "fst e \<noteq> k" using \<open>k \<notin> set (map_keys m)\<close> m by (auto simp: map_keys_def)
    have "map_keys (map_set k v m) = map_keys m @ [k]"
      using \<open>k \<notin> set (map_keys m)\<close> by (simp add: map_keys_map_set)
    then have "map_keys (map_set k v m) = fst e # map_keys m' @ [k]"
      using m by (simp add: map_keys_def)
    then have "manageCache (map_set k v m) = map_delete (fst e) (map_set k v m)"
      using True by (simp add: manageCache_def)
    then show ?thesis using ne
      by (simp add: map_get_def cache_put_def map_of_map_delete map_of_map_set)
  qed
qed

subsection \<open>The map keeps its entries in the order of insertion\<close>

lemma traced_inv_get: "traced_inv t \<Longrightarrow> traced_inv (traced_apply (Get k) t)"
  by (auto simp: traced_inv_def list_all_iff)

lemma traced_inv_put_old:
  assumes inv: "traced_inv t" and old: "k \<in> set (map_keys (entries t))"
  shows "traced_inv (traced_apply (Put k v) t)"
proof -
  have keys: "map_keys (map_set k v (entries t)) = map_keys (entries t)"
    using old by (simp add: map_keys_map_set)
  have len: "length (map_set k v (entries t)) = length (entries t)"
    using old by (simp add: length_map_set)
  have "manageCache (map_set k v (entries t)) = map_set k v (entries t)"
    using inv keys len by (simp add: manageCache_distinct traced_inv_def)
  then show ?thesis using inv old keys len
    by (auto simp: traced_inv_def cache_put_def list_all_iff)
qed

lemma sorted_wrt_tl: "sorted_wrt P xs \<Longrightarrow> sorted_wrt P (tl xs)"
  by (cases xs) auto

lemma traced_inv_put_new:
  assumes inv: "traced_inv t" and new: "k \<notin> set (map_keys (entries t))"
  shows "traced_inv (traced_apply (Put k v) t)"
proof -
  let ?m = "entries t"
  let ?b = "(born t)(k := ticks t)"
  let ?ks = "map_keys ?m @ [k]"
  have set_eq: "map_set k v ?m = ?m @ [(k, v)]" using new by (rule map_set_new)
  have ks: "map_keys (?m @ [(k, v)]) = ?ks" by (simp add: map_keys_def)
  have d: "distinct ?ks" using inv new by (simp add: traced_inv_def)
  have same: "map ?b ?ks = map (born t) (map_keys ?m) @ [ticks t]" using new by auto
  have lt: "\<forall>x \<in> set (map_keys ?m). born t x < ticks t"
    using inv by (simp add: traced_inv_def list_all_iff)
  have "sorted_wrt (<) (map (born t) (map_keys ?m))" using inv by (simp add: traced_inv_def)
  then have s: "sorted_wrt (<) (map ?b ?ks)"
    unfolding same using lt by (simp add: sorted_wrt_append)
  have a: "list_all (\<lambda>x. ?b x < ticks t + 1) ?ks"
    using lt by (auto simp: list_all_iff less_Suc_eq)
  have mc: "manageCache (?m @ [(k, v)]) =
              (if MAX_SIZE CACHE_CONFIG < length (?m @ [(k, v)]) then tl (?m @ [(k, v)])
               else ?m @ [(k, v)])"
    using d ks by (simp add: manageCache_distinct)
  show ?thesis
  proof (cases "MAX_SIZE CACHE_CONFIG < length (?m @ [(k, v)])")
    case False
    then show ?thesis using new set_eq d s a mc ks
      by (simp add: traced_inv_def cache_put_def)
  next
    case True
    have keys_tl: "map_keys (tl (?m @ [(k, v)])) = tl ?ks"
      using ks by (simp add: map_keys_def map_tl)
    have "distinct (tl ?ks)" using d by (rule distinct_tl)
    moreover have "sorted_wrt (<) (map ?b (tl ?ks))"
      using s by (metis map_tl sorted_wrt_tl)
    moreover have "list_all (\<lambda>x. ?b x < ticks t + 1) (tl ?ks)"
      using a by (metis list.sel(2) list.set_sel(2) list_all_iff)
    moreover have "length (tl (?m @ [(k, v)])) \<le> MAX_SIZE CACHE_CONFIG"
      using inv by (simp add: traced_inv_def)
    ultimately show ?thesis using True new set_eq mc keys_tl
      by (simp add: traced_inv_def cache_put_def)
  qed
qed

lemma traced_inv_apply: "traced_inv t \<Longrightarrow> traced_inv (traced_apply op t)"
proof (cases op)
  case (Put k v)
  assume "traced_inv t"
  then show ?thesis using Put traced_inv_put_old[of t k v] traced_inv_put_new[of t k v] by blast
next
  case (Get k)
  assume "traced_inv t"
  then show ?thesis using Get traced_inv_get[of t k] by simp
qed

lemma traced_inv_foldl: "traced_inv t \<Longrightarrow> traced_inv (foldl (\<lambda>t op. traced_apply op t) t ops)"
  by (induction ops arbitrary: t) (auto intro: traced_inv_apply)

lemma traced_inv_run: "traced_inv (traced_run ops)"
  unfolding traced_run_def by (rule traced_inv_foldl) (simp add: traced_inv_def map_keys_def)

text \<open>
  C7. After any sequence of writes and reads, a write that takes the map over \<open>MAX_SIZE\<close>
  removes exactly one entry, the one at the head of the map, and that entry's key was
  inserted before the key of every entry that stays: the evicted entry is the least recently
  inserted one. Reads change neither the map nor the order, so the access pattern plays no
  part; a \<^verbatim>\<open>set\<close> on a key that is present replaces the value and keeps the key's place.
\<close>

theorem manageCache_evicts_oldest_inserted:
  assumes reached: "t = traced_run ops"
    and over: "MAX_SIZE CACHE_CONFIG < length (map_set k v (entries t))"
  shows "\<exists>e. map_set k v (entries t) = e # entries (traced_apply (Put k v) t)
           \<and> (\<forall>x \<in> set (entries (traced_apply (Put k v) t)).
                 born (traced_apply (Put k v) t) (fst e) < born (traced_apply (Put k v) t) (fst x))"
proof -
  let ?t' = "traced_apply (Put k v) t"
  have inv: "traced_inv t" using reached by (simp add: traced_inv_run)
  have new: "k \<notin> set (map_keys (entries t))"
    using over inv by (auto simp: length_map_set traced_inv_def split: if_splits)
  have set_eq: "map_set k v (entries t) = entries t @ [(k, v)]" using new by (rule map_set_new)
  have d: "distinct (map_keys (map_set k v (entries t)))"
    using inv new by (simp add: map_keys_map_set traced_inv_def)
  have ent: "entries ?t' = tl (map_set k v (entries t))"
    using d over by (simp add: cache_put_def manageCache_distinct)
  obtain e rest where er: "map_set k v (entries t) = e # rest"
    using over by (cases "map_set k v (entries t)") auto
  have rest: "entries ?t' = rest" using ent er by simp
  let ?b = "(born t)(k := ticks t)"
  have b': "born ?t' = ?b" using new by simp
  have lt: "\<forall>x \<in> set (map_keys (entries t)). born t x < ticks t"
    using inv by (simp add: traced_inv_def list_all_iff)
  have same: "map ?b (map_keys (entries t) @ [k]) = map (born t) (map_keys (entries t)) @ [ticks t]"
    using new by auto
  have "sorted_wrt (<) (map (born t) (map_keys (entries t)))" using inv by (simp add: traced_inv_def)
  then have srt: "sorted_wrt (<) (map ?b (map_keys (entries t) @ [k]))"
    unfolding same using lt by (simp add: sorted_wrt_append)
  have "map_keys (entries t @ [(k, v)]) = map_keys (e # rest)" using er set_eq by simp
  then have ks: "map_keys (entries t) @ [k] = fst e # map_keys rest" by (simp add: map_keys_def)
  have "sorted_wrt (<) (map ?b (fst e # map_keys rest))" using srt unfolding ks .
  then have "\<forall>x \<in> set (map_keys rest). ?b (fst e) < ?b x" by simp
  then have "\<forall>x \<in> set rest. ?b (fst e) < ?b (fst x)"
    by (simp add: map_keys_def)
  then show ?thesis using er rest b' by simp
qed

lemma traced_run_snoc: "traced_run (ops @ [op]) = traced_apply op (traced_run ops)"
  by (simp add: traced_run_def)

lemma fill_Suc: "fill (Suc n) = fill n @ [Put n (n * n)]"
  by (simp add: fill_def)

lemma entries_fill:
  "n \<le> MAX_SIZE CACHE_CONFIG \<Longrightarrow> entries (traced_run (fill n)) = map (\<lambda>i. (i, i * i)) [0..<n]"
proof (induction n)
  case 0
  then show ?case by (simp add: fill_def traced_run_def)
next
  case (Suc n)
  then have ih: "entries (traced_run (fill n)) = map (\<lambda>i. (i, i * i)) [0..<n]" by simp
  have new: "n \<notin> set (map_keys (map (\<lambda>i. (i, i * i)) [0..<n]))"
    by (auto simp: map_keys_def)
  have "map_set n (n * n) (map (\<lambda>i. (i, i * i)) [0..<n]) = map (\<lambda>i. (i, i * i)) [0..<n] @ [(n, n * n)]"
    using new by (rule map_set_new)
  then show ?case using Suc.prems ih
    by (simp add: fill_Suc traced_run_snoc cache_put_def manageCache_def)
qed

text \<open>The keys 0 to 999 fill the map; the write of key 1000 takes it over the cap.\<close>

theorem manageCache_evicts_oldest_inserted_witness:
  "MAX_SIZE CACHE_CONFIG < length (map_set 1000 7 (entries (traced_run (fill 1000))))
   \<and> (\<exists>e. map_set 1000 7 (entries (traced_run (fill 1000)))
             = e # entries (traced_apply (Put 1000 7) (traced_run (fill 1000)))
          \<and> (\<forall>x \<in> set (entries (traced_apply (Put 1000 7) (traced_run (fill 1000)))).
               born (traced_apply (Put 1000 7) (traced_run (fill 1000))) (fst e)
                 < born (traced_apply (Put 1000 7) (traced_run (fill 1000))) (fst x)))"
proof -
  have e: "entries (traced_run (fill 1000)) = map (\<lambda>i. (i, i * i)) [0..<1000]"
    by (rule entries_fill) (simp add: CACHE_CONFIG_def)
  have "(1000::nat) \<notin> set (map_keys (entries (traced_run (fill 1000))))"
    by (auto simp: e map_keys_def)
  then have over: "MAX_SIZE CACHE_CONFIG < length (map_set 1000 7 (entries (traced_run (fill 1000))))"
    by (simp add: length_map_set e CACHE_CONFIG_def)
  show ?thesis
    using over manageCache_evicts_oldest_inserted [OF refl over] by blast
qed

section \<open>Properties of the speech synthesis\<close>

lemma synthesize_failed:
  "failed (outcome ext) \<Longrightarrow> ttsCache (fst (synthesize ext w txt)) = ttsCache w"
  by (cases "outcome ext") (auto simp: synthesize_def Let_def split: option.splits)

lemma generateTTS_failed:
  "failed (outcome ext) \<Longrightarrow> ttsCache (fst (generateTTS ext w v)) = ttsCache w"
  by (auto simp: generateTTS_def synthesize_failed split: sum.splits)

text \<open>A failure of the service reaches the caller as an exception.\<close>

lemma generateTTS_failed_reported:
  "failed (outcome ext) \<Longrightarrow> tts_guard v = Inr txt \<Longrightarrow> cached_tts w txt = None
     \<Longrightarrow> isl (snd (generateTTS ext w v))"
  by (cases "outcome ext") (auto simp: generateTTS_def synthesize_def Let_def)

text \<open>
  C8. Let a first call of \<^verbatim>\<open>generateTTS\<close> with a text that is not blank miss the cache and
  be answered by the service with status 200 after \<open>d\<close> milliseconds, and let a second call
  with the same text follow \<open>gap\<close> milliseconds later, less than the TTL after the first one
  began. Then both calls return the bytes the service sent, and the two calls together send
  one request to the service, whatever the service would answer the second time. And a
  request that fails, by a network error or by a status other than 200, leaves the cache as
  it was. (The cache holds at most \<open>MAX_SIZE\<close> entries in every state the module reaches,
  lemma \<open>cache_put_bounded\<close>.)
\<close>

theorem generateTTS_idempotent_within_TTL:
  assumes nonblank: "trim txt \<noteq> []"
    and miss: "cached_tts w txt = None"
    and room: "length (ttsCache w) \<le> MAX_SIZE CACHE_CONFIG"
    and first: "generateTTS \<lparr>outcome = HttpResponse 200 body, latency = d\<rparr> w (JStr txt) = (w1, r1)"
    and d: "0 \<le> d"
    and window: "d + gap < TTL CACHE_CONFIG"
    and second: "generateTTS ext2 (advance gap w1) (JStr txt) = (w2, r2)"
  shows "r1 = Inr body \<and> r2 = Inr body \<and> posts w2 = posts w + 1
         \<and> (\<forall>ext w0 v. failed (outcome ext) \<longrightarrow> ttsCache (fst (generateTTS ext w0 v)) = ttsCache w0)"
proof -
  let ?e = "\<lparr>data = body, timestamp = now w + d\<rparr>"
  have w1: "w1 = w\<lparr>now := now w + d, posts := posts w + 1,
                    ttsCache := cache_put txt ?e (ttsCache w)\<rparr>"
    and r1: "r1 = Inr body"
    using first nonblank miss by (auto simp: generateTTS_def synthesize_def Let_def)
  have got: "map_get (ttsCache w1) txt = Some ?e"
    using room by (simp add: w1 map_get_cache_put)
  have hit: "cached_tts (advance gap w1) txt = Some body"
    using got d window by (simp add: cached_tts_def advance_def w1)
  have "w2 = advance gap w1 \<and> r2 = Inr body"
    using second nonblank hit by (auto simp: generateTTS_def synthesize_def)
  then show ?thesis using r1 w1 by (simp add: advance_def generateTTS_failed)
qed

lemma trim_Hello: "trim (js ''Hello'') = js ''Hello''"
  by (simp add: trim_def is_space_def js_def)

text \<open>The second call comes a second after the first and finds the service down.\<close>

theorem generateTTS_idempotent_within_TTL_witness:
  "snd (generateTTS service_ok world0 (JStr (js ''Hello''))) = Inr hello_audio
   \<and> snd (generateTTS service_down (advance 1000 (fst (generateTTS service_ok world0 (JStr (js ''Hello'')))))
            (JStr (js ''Hello''))) = Inr hello_audio
   \<and> posts (fst (generateTTS service_down (advance 1000 (fst (generateTTS service_ok world0 (JStr (js ''Hello'')))))
            (JStr (js ''Hello'')))) = 1
   \<and> ttsCache (fst (generateTTS service_down world0 (JStr (js ''Hello'')))) = []"
proof -
  have h1: "trim (js ''Hello'') \<noteq> []" by (simp add: trim_Hello)
  have h2: "cached_tts world0 (js ''Hello'') = None" by (simp add: cached_tts_def world0_def map_get_def)
  have h3: "length (ttsCache world0) \<le> MAX_SIZE CACHE_CONFIG" by (simp add: world0_def)
  have h4: "generateTTS \<lparr>outcome = HttpResponse 200 hello_audio, latency = 350\<rparr> world0 (JStr (js ''Hello''))
              = (fst (generateTTS service_ok world0 (JStr (js ''Hello''))),
                 snd (generateTTS service_ok world0 (JStr (js ''Hello''))))"
    by (simp add: service_ok_def)
  have h5: "(0::int) \<le> 350" by simp
  have h6: "350 + 1000 < TTL CACHE_CONFIG" by (simp add: CACHE_CONFIG_def)
  have h7: "generateTTS service_down (advance 1000 (fst (generateTTS service_ok world0 (JStr (js ''Hello'')))))
              (JStr (js ''Hello''))
            = (fst (generateTTS service_down (advance 1000 (fst (generateTTS service_ok world0 (JStr (js ''Hello'')))))
                      (JStr (js ''Hello''))),
               snd (generateTTS service_down (advance 1000 (fst (generateTTS service_ok world0 (JStr (js ''Hello'')))))
                      (JStr (js ''Hello''))))"
    by simp
  have f: "failed (outcome service_down)" by (simp add: service_down_def)
  show ?thesis
    using generateTTS_idempotent_within_TTL [OF h1 h2 h3 h4 h5 h6 h7] f
    by (simp add: world0_def)
qed


section \<open>Properties of the orchestrator\<close>

text \<open>The array an invocation works on holds the history it started from.\<close>

lemma load_history_array:
  "load_history w sessionId = (a, w1) \<Longrightarrow> arrays w1 a = history_on_entry w sessionId"
  by (auto simp: load_history_def history_on_entry_def persisted_history_def split: option.splits)

lemma load_history_cache:
  "load_history w sessionId = (a, w1) \<Longrightarrow> conversationCache w1 = conversationCache w"
  by (auto simp: load_history_def split: option.splits)

lemma trim_history_array:
  "trim_history a w = (a', w') \<Longrightarrow>
     arrays w' a' = drop (length (arrays w a) - MAX_HISTORY CACHE_CONFIG) (arrays w a)
     \<and> conversationCache w' = conversationCache w"
  by (auto simp: trim_history_def split: if_splits)

text \<open>
  When the model has answered, the invocation stores the history it started from, extended
  by the utterance and the reply and cut to its last \<open>MAX_HISTORY\<close> messages: the cut
  takes from the oldest end.
\<close>

lemma processTranscript_try_answered:
  assumes room: "length (conversationCache w) \<le> MAX_SIZE CACHE_CONFIG"
    and answered: "chat env (build_request currentName (history_on_entry w sessionId @ [userMessage transcript])) = Inr message"
    and st: "st = (case m_function_call message of None \<Rightarrow> interp0 message
                    | Some fc \<Rightarrow> interpret_function_call env currentName fc (interp0 message))"
    and h: "h = history_on_entry w sessionId @
               [userMessage transcript,
                \<lparr>role = Assistant, content = Some (final_response (aiResponse st) (m_content message))\<rparr>]"
  shows "\<exists>w'. processTranscript_try env w transcript sessionId currentName =
           (w', requests st,
            Inr \<lparr>response = final_response (aiResponse st) (m_content message), extractedName = extracted st\<rparr>)
         \<and> persisted_history w' sessionId = Some (drop (length h - MAX_HISTORY CACHE_CONFIG) h)"
proof -
  obtain a w1 where lh: "load_history w sessionId = (a, w1)" by (cases "load_history w sessionId")
  let ?w2 = "push a (userMessage transcript) w1"
  let ?ans = "final_response (aiResponse st) (m_content message)"
  let ?w3 = "push a \<lparr>role = Assistant, content = Some ?ans\<rparr> ?w2"
  have a2: "arrays ?w2 a = history_on_entry w sessionId @ [userMessage transcript]"
    using load_history_array[OF lh] by (simp add: push_def)
  have a3: "arrays ?w3 a = h" using a2 h by (simp add: push_def)
  have c3: "conversationCache ?w3 = conversationCache w"
    using load_history_cache[OF lh] by (simp add: push_def)
  obtain a' w4 where th: "trim_history a ?w3 = (a', w4)" by (cases "trim_history a ?w3")
  have a4: "arrays w4 a' = drop (length h - MAX_HISTORY CACHE_CONFIG) h"
    and c4: "conversationCache w4 = conversationCache w"
    using trim_history_array[OF th] a3 c3 by simp_all
  let ?w5 = "w4\<lparr>conversationCache := cache_put sessionId a' (conversationCache w4)\<rparr>"
  have "processTranscript_try env w transcript sessionId currentName =
          (?w5, requests st, Inr \<lparr>response = ?ans, extractedName = extracted st\<rparr>)"
    using lh th answered a2 st by (simp add: processTranscript_try_def Let_def)
  moreover have "persisted_history ?w5 sessionId = Some (drop (length h - MAX_HISTORY CACHE_CONFIG) h)"
    using a4 c4 room by (simp add: persisted_history_def map_get_cache_put)
  ultimately show ?thesis by blast
qed

text \<open>
  When the completion request fails, the invocation ends in the outer \<^verbatim>\<open>catch\<close>, after
  the utterance was pushed onto the array: a history that was in the cache has grown by one
  message and was not cut.
\<close>

lemma processTranscript_try_failed:
  assumes "chat env (build_request currentName (history_on_entry w sessionId @ [userMessage transcript])) = Inl e"
  shows "\<exists>w'. processTranscript_try env w transcript sessionId currentName = (w', [], Inl e)
          \<and> persisted_history w' sessionId
             = map_option (\<lambda>h. h @ [userMessage transcript]) (persisted_history w sessionId)"
proof -
  obtain a w1 where lh: "load_history w sessionId = (a, w1)" by (cases "load_history w sessionId")
  let ?w2 = "push a (userMessage transcript) w1"
  have a2: "arrays ?w2 a = history_on_entry w sessionId @ [userMessage transcript]"
    using load_history_array[OF lh] by (simp add: push_def)
  have "processTranscript_try env w transcript sessionId currentName = (?w2, [], Inl e)"
    using lh assms a2 by (simp add: processTranscript_try_def Let_def)
  moreover have "persisted_history ?w2 sessionId
             = map_option (\<lambda>h. h @ [userMessage transcript]) (persisted_history w sessionId)"
    using lh by (auto simp: persisted_history_def load_history_def push_def split: option.splits)
  ultimately show ?thesis by blast
qed

lemma interp_fields [simp]:
  "extracted (raise e st) = extracted st" "extracted (say s st) = extracted st"
  "extracted (sent c st) = extracted st"
  "thrown (say s st) = thrown st" "aiResponse (say s st) = Some s"
  by (simp_all add: raise_def say_def sent_def)

lemma extractName_step_thrown:
  "thrown st = None \<Longrightarrow> extracted st = None \<Longrightarrow> thrown (extractName_step fname args st) = Some e
     \<Longrightarrow> extracted (extractName_step fname args st) = None"
  by (auto simp: extractName_step_def raise_def say_def split: if_splits sum.splits)

lemma extractName_step_other:
  "fname \<noteq> js ''extractName'' \<Longrightarrow> extractName_step fname args st = st"
  by (simp add: extractName_step_def)

lemma scheduleAppointment_step_extracted:
  "extracted (scheduleAppointment_step env currentName fname args st) = extracted st"
  by (auto simp: scheduleAppointment_step_def action_check_def action_suggest_next_def
      action_schedule_def Let_def phoneNumber_ref_def split: sum.splits)

lemma scheduleAppointment_step_other:
  "fname \<noteq> js ''scheduleAppointment'' \<Longrightarrow> scheduleAppointment_step env currentName fname args st = st"
  by (simp add: scheduleAppointment_step_def)

text \<open>An exception inside the inner \<^verbatim>\<open>try\<close> leaves the apology as reply and no name.\<close>

lemma interpret_thrown:
  assumes "thrown (interpret_function_call env currentName fc (interp0 message)) = Some e"
  shows "aiResponse (interpret_function_call env currentName fc (interp0 message)) = Some apology
       \<and> extracted (interpret_function_call env currentName fc (interp0 message)) = None"
proof (cases "fc_arguments fc")
  case None
  then show ?thesis by (simp add: interpret_function_call_def Let_def raise_def interp0_def)
next
  case (Some args)
  let ?st1 = "extractName_step (fc_name fc) args (interp0 message)"
  show ?thesis
  proof (cases "thrown ?st1")
    case (Some e1)
    then have "extracted ?st1 = None"
      using extractName_step_thrown[of "interp0 message" "fc_name fc" args e1] by (simp add: interp0_def)
    then show ?thesis using Some \<open>fc_arguments fc = Some args\<close>
      by (simp add: interpret_function_call_def Let_def)
  next
    case None
    show ?thesis
    proof (cases "fc_name fc = js ''scheduleAppointment''")
      case True
      then have "?st1 = interp0 message" by (simp add: extractName_step_other)
      then have "extracted (scheduleAppointment_step env currentName (fc_name fc) args ?st1) = None"
        by (simp add: scheduleAppointment_step_extracted interp0_def)
      then show ?thesis using None assms \<open>fc_arguments fc = Some args\<close>
        by (simp add: interpret_function_call_def Let_def split: if_splits)
    next
      case False
      then have "scheduleAppointment_step env currentName (fc_name fc) args ?st1 = ?st1"
        by (rule scheduleAppointment_step_other)
      then show ?thesis using None assms \<open>fc_arguments fc = Some args\<close>
        by (simp add: interpret_function_call_def Let_def)
    qed
  qed
qed

text \<open>
  C9. Let the model answer an utterance that is not blank with a function call whose
  interpretation throws (the argument text is not JSON, a field has the wrong type, a
  collaborator rejects, an identifier is unbound). Then \<^verbatim>\<open>processTranscript\<close> returns the
  fixed apology as its reply, with no name, and the history stored for the session afterwards
  ends with the caller's utterance, a message of role user holding the trimmed transcript,
  followed by the apology as the assistant's message. And no invocation ends in an
  exception: for every transcript text, session key and name, whatever the model and the
  collaborators do, \<^verbatim>\<open>processTranscript\<close> returns a reply. (The cache holds at most
  \<open>MAX_SIZE\<close> entries in every state the module reaches, lemma \<open>cache_put_bounded\<close>.)
\<close>

theorem function_call_failure_degrades_to_apology:
  assumes nonblank: "trim transcript \<noteq> []"
    and room: "length (conversationCache w) \<le> MAX_SIZE CACHE_CONFIG"
    and answered: "chat env (build_request currentName
                     (history_on_entry w sessionId @ [\<lparr>role = User, content = Some (trim transcript)\<rparr>]))
                   = Inr message"
    and fc: "m_function_call message = Some fc"
    and raised: "thrown (interpret_function_call env currentName fc (interp0 message)) = Some e"
    and result: "processTranscript env w transcript sessionId currentName = (w', calls, res)"
  shows "res = Inr \<lparr>response = js ''I apologize, but I'm having trouble processing your appointment request. Could you please try again?'',
                     extractedName = None\<rparr>
       \<and> (\<exists>older. persisted_history w' sessionId =
             Some (older @
               [\<lparr>role = User, content = Some (trim transcript)\<rparr>,
                \<lparr>role = Assistant,
                 content = Some (js ''I apologize, but I'm having trouble processing your appointment request. Could you please try again?'')\<rparr>]))
       \<and> (\<forall>env0 w0 t0 k0 n0. \<exists>r. snd (snd (processTranscript env0 w0 t0 k0 n0)) = Inr r)"
proof -
  let ?st = "interpret_function_call env currentName fc (interp0 message)"
  let ?u = "\<lparr>role = User, content = Some (trim transcript)\<rparr>"
  have u: "userMessage transcript = ?u" by (simp add: userMessage_def)
  have answered': "chat env (build_request currentName (history_on_entry w sessionId @ [userMessage transcript])) = Inr message"
    using answered by (simp add: u)
  have ai: "aiResponse ?st = Some apology" and ex: "extracted ?st = None"
    using interpret_thrown[OF raised] by simp_all
  have fr: "final_response (aiResponse ?st) (m_content message) = apology"
    using ai by (simp add: final_response_def apology_def)
  let ?h = "history_on_entry w sessionId @ [userMessage transcript, \<lparr>role = Assistant, content = Some apology\<rparr>]"
  obtain wr where tried: "processTranscript_try env w transcript sessionId currentName =
           (wr, requests ?st, Inr \<lparr>response = apology, extractedName = None\<rparr>)"
    and ph: "persisted_history wr sessionId = Some (drop (length ?h - MAX_HISTORY CACHE_CONFIG) ?h)"
    using processTranscript_try_answered[OF room answered', of ?st ?h] fc fr ex by auto
  have w': "w' = wr" and res: "res = Inr \<lparr>response = apology, extractedName = None\<rparr>"
    using result nonblank tried by (simp_all add: processTranscript_def)
  have "drop (length ?h - MAX_HISTORY CACHE_CONFIG) ?h
          = drop (length ?h - MAX_HISTORY CACHE_CONFIG) (history_on_entry w sessionId)
            @ [?u, \<lparr>role = Assistant, content = Some apology\<rparr>]"
    by (simp add: CACHE_CONFIG_def u)
  then have stored: "\<exists>older. persisted_history w' sessionId =
                       Some (older @ [?u, \<lparr>role = Assistant, content = Some apology\<rparr>])"
    using ph w' by auto
  have total: "\<forall>env0 w0 t0 k0 n0. \<exists>r. snd (snd (processTranscript env0 w0 t0 k0 n0)) = Inr r"
    by (auto simp: processTranscript_def split: prod.splits sum.splits)
  show ?thesis using res stored total unfolding apology_def by blast
qed

lemma answering_chat [simp]: "chat (answering m) request = Inr m"
  by (simp add: answering_def)

lemma model_down_chat [simp]: "chat model_down request = Inl ModelCallError"
  by (simp add: model_down_def)

lemma trim_book: "trim (js ''Please book it'') = js ''Please book it''"
  by (simp add: trim_def is_space_def js_def)

text \<open>
  The model's function call carries an argument text that is not JSON. The session had no
  history: afterwards it holds the utterance and the apology.
\<close>

theorem function_call_failure_degrades_to_apology_witness:
  "snd (snd (processTranscript (answering broken_call) world0 (js ''Please book it'') (KeyStr (js ''MZ1'')) (Some (js ''Alex''))))
     = Inr \<lparr>response = js ''I apologize, but I'm having trouble processing your appointment request. Could you please try again?'',
            extractedName = None\<rparr>
   \<and> (\<exists>older. persisted_history
            (fst (processTranscript (answering broken_call) world0 (js ''Please book it'') (KeyStr (js ''MZ1'')) (Some (js ''Alex''))))
            (KeyStr (js ''MZ1''))
          = Some (older @
               [\<lparr>role = User, content = Some (js ''Please book it'')\<rparr>,
                \<lparr>role = Assistant,
                 content = Some (js ''I apologize, but I'm having trouble processing your appointment request. Could you please try again?'')\<rparr>]))"
proof -
  let ?p = "processTranscript (answering broken_call) world0 (js ''Please book it'') (KeyStr (js ''MZ1'')) (Some (js ''Alex''))"
  have h1: "trim (js ''Please book it'') \<noteq> []" by (simp add: trim_book)
  have h2: "length (conversationCache world0) \<le> MAX_SIZE CACHE_CONFIG" by (simp add: world0_def)
  have h3: "chat (answering broken_call)
              (build_request (Some (js ''Alex''))
                 (history_on_entry world0 (KeyStr (js ''MZ1''))
                    @ [\<lparr>role = User, content = Some (trim (js ''Please book it''))\<rparr>]))
            = Inr broken_call"
    by simp
  have h4: "m_function_call broken_call
              = Some \<lparr>fc_name = js ''scheduleAppointment'', fc_arguments = None\<rparr>"
    by (simp add: broken_call_def)
  have h5: "thrown (interpret_function_call (answering broken_call) (Some (js ''Alex''))
                      \<lparr>fc_name = js ''scheduleAppointment'', fc_arguments = None\<rparr> (interp0 broken_call))
            = Some SyntaxError"
    by (simp add: interpret_function_call_def Let_def raise_def)
  have h6: "?p = (fst ?p, fst (snd ?p), snd (snd ?p))" by simp
  show ?thesis
    using function_call_failure_degrades_to_apology [OF h1 h2 h3 h4 h5 h6]
    unfolding trim_book by blast
qed



lemmas orchestrator_defs = processTranscript_def processTranscript_try_def load_history_def
  map_get_def push_def interpret_function_call_def Let_def interp0_def userMessage_def
  extractName_step_def scheduleAppointment_step_def action_schedule_def phoneNumber_ref_def
  sent_def say_def raise_def final_response_def trim_history_def persisted_history_def
  cache_put_def manageCache_def CACHE_CONFIG_def world0_def js_append

text \<open>
  The first half of Scenario B, for every name: when the model answers with a confident
  name extraction, the invocation returns the trimmed name and the acknowledgment built
  from it, whatever the history and the known name.
\<close>

lemma name_extraction_reply:
  assumes nonblank: "trim transcript \<noteq> []"
    and room: "length (conversationCache w) \<le> MAX_SIZE CACHE_CONFIG"
    and answered: "chat env (build_request currentName (history_on_entry w sessionId @ [userMessage transcript]))
                   = Inr \<lparr>m_content = c,
                          m_function_call = Some \<lparr>fc_name = js ''extractName'',
                            fc_arguments = Some (JObj [(js ''name'', JStr n), (js ''confidence'', JBool True)])\<rparr>\<rparr>"
  shows "snd (snd (processTranscript env w transcript sessionId currentName))
           = Inr \<lparr>response = js ''Nice to meet you, '' @ trim n @ js ''! How can I assist you today?'',
                  extractedName = Some (trim n)\<rparr>"
proof -
  let ?fc = "\<lparr>fc_name = js ''extractName'',
              fc_arguments = Some (JObj [(js ''name'', JStr n), (js ''confidence'', JBool True)])\<rparr>"
  let ?m = "\<lparr>m_content = c, m_function_call = Some ?fc\<rparr>"
  let ?st = "interpret_function_call env currentName ?fc (interp0 ?m)"
  let ?ack = "js ''Nice to meet you, '' @ trim n @ js ''! How can I assist you today?''"
  have st: "aiResponse ?st = Some ?ack \<and> extracted ?st = Some (trim n) \<and> requests ?st = []"
    by (simp add: interpret_function_call_def Let_def interp0_def extractName_step_def
        scheduleAppointment_step_def say_def)
  have fr: "final_response (aiResponse ?st) (m_content ?m) = ?ack"
    using st by (simp add: final_response_def)
  obtain w' where "processTranscript_try env w transcript sessionId currentName =
           (w', requests ?st,
            Inr \<lparr>response = final_response (aiResponse ?st) (m_content ?m), extractedName = extracted ?st\<rparr>)"
    using processTranscript_try_answered[OF room answered, of ?st] by auto
  then show ?thesis using nonblank st fr by (simp add: processTranscript_def)
qed

text \<open>
  Whatever the appointment store answers, the \<open>schedule\<close> action sends no creation request
  and never confirms: after a positive availability check the evaluation of the arguments
  of \<^verbatim>\<open>createAppointment\<close> throws.
\<close>

lemma action_schedule_never_creates:
  "requests (action_schedule env currentName t st) = requests st @ [CheckAvailability t]
   \<or> requests (action_schedule env currentName t st) = requests st @ [CheckAvailability t, NextTime t]"
  by (auto simp: action_schedule_def Let_def phoneNumber_ref_def sent_def say_def raise_def
      split: sum.splits)

text \<open>
  C4. The caller is known as Alex, the model asks to schedule 2025-01-15T10:00:00Z, the
  store reports the slot free and would accept the booking. The orchestrator checks the
  availability, sends no creation request, and replies with the apology of the inner
  \<^verbatim>\<open>catch\<close> instead of the confirmation: \<^verbatim>\<open>phoneNumber\<close> is unbound where the call of
  \<^verbatim>\<open>createAppointment\<close> reads it.
\<close>

theorem schedule_on_free_slot_apologizes:
  "snd (processTranscript (answering asks_schedule) world0 (js ''Please book it'') (KeyStr (js ''MZ1'')) (Some (js ''Alex'')))
     = ([CheckAvailability (JStr (js ''2025-01-15T10:00:00Z''))],
        Inr \<lparr>response = js ''I apologize, but I'm having trouble processing your appointment request. Could you please try again?'',
             extractedName = None\<rparr>)"
  by (simp add: orchestrator_defs trim_book answering_def asks_schedule_def apology_def)

lemma trim_hello: "trim (js ''hello'') = js ''hello''"
  by (simp add: trim_def is_space_def js_def)

text \<open>
  C10. Five answered turns of one session leave a history of ten messages in the cache, the
  cap. In the sixth invocation the completion request fails: the utterance was already
  pushed onto the cached array, the \<^verbatim>\<open>catch\<close> returns before the cut, and the invocation
  completes with eleven messages stored for the session.
\<close>

theorem failed_model_call_leaves_history_over_cap:
  "map_option length (persisted_history five_turns (KeyStr (js ''MZ1''))) = Some 10
   \<and> map_option length (persisted_history (hello_turn model_down five_turns) (KeyStr (js ''MZ1''))) = Some 11
   \<and> MAX_HISTORY CACHE_CONFIG = 10"
  by (simp add: five_turns_def hello_turn_def numeral_eq_Suc orchestrator_defs trim_hello
      answering_def plain_answer_def model_down_def)

section \<open>Expiry\<close>

lemma persisted_history_advance:
  "persisted_history (advance d w) sessionId = persisted_history w sessionId"
  by (simp add: persisted_history_def advance_def)

text \<open>
  C6, as the code has it. An entry of the synthesized-audio cache whose age has reached the
  TTL is absent for \<^verbatim>\<open>generateTTS\<close>, though the map still holds it: the read finds nothing
  and a text that is not blank is requested from the service again. The conversation-history
  cache stores no timestamp and is read without a look at the clock: what it returns for a
  session does not depend on the time that has passed.
\<close>

theorem ttl_expiry_on_synthesis_cache_only:
  assumes stored: "map_get (ttsCache w) txt = Some e"
    and expired: "TTL CACHE_CONFIG \<le> now w - timestamp e"
  shows "cached_tts w txt = None
       \<and> (trim txt \<noteq> [] \<longrightarrow> posts (fst (generateTTS ext w (JStr txt))) = posts w + 1)
       \<and> persisted_history (advance d w) sessionId = persisted_history w sessionId"
proof -
  have absent: "cached_tts w txt = None" using stored expired by (simp add: cached_tts_def)
  then have "trim txt \<noteq> [] \<longrightarrow> posts (fst (generateTTS ext w (JStr txt))) = posts w + 1"
    by (cases "outcome ext") (auto simp: generateTTS_def synthesize_def Let_def)
  then show ?thesis using absent by (simp add: persisted_history_advance)
qed

lemma stale_world_entry:
  "map_get (ttsCache stale_world) (js ''Hello'') = Some \<lparr>data = hello_audio, timestamp = 350\<rparr>
   \<and> now stale_world = 350 + (TTL CACHE_CONFIG + 1)"
  by (simp add: stale_world_def generateTTS_def synthesize_def trim_Hello cached_tts_def world0_def
      service_ok_def Let_def advance_def cache_put_def manageCache_def map_get_def CACHE_CONFIG_def)

text \<open>A clip synthesized at time 350 and read one millisecond after its hour has passed.\<close>

theorem ttl_expiry_on_synthesis_cache_only_witness:
  "map_get (ttsCache stale_world) (js ''Hello'') = Some \<lparr>data = hello_audio, timestamp = 350\<rparr>
   \<and> cached_tts stale_world (js ''Hello'') = None
   \<and> posts (fst (generateTTS service_ok stale_world (JStr (js ''Hello'')))) = posts stale_world + 1"
proof -
  have h1: "map_get (ttsCache stale_world) (js ''Hello'') = Some \<lparr>data = hello_audio, timestamp = 350\<rparr>"
    using stale_world_entry by simp
  have h2: "TTL CACHE_CONFIG \<le> now stale_world - timestamp \<lparr>data = hello_audio, timestamp = 350\<rparr>"
    using stale_world_entry by simp
  have h3: "trim (js ''Hello'') \<noteq> []" by (simp add: trim_Hello)
  show ?thesis
    using ttl_expiry_on_synthesis_cache_only [OF h1 h2, of service_ok] h1 h3 by blast
qed

text \<open>
  The claim fails for the conversation-history cache: a history stored at time 0 is returned
  unchanged when more than the TTL has passed.
\<close>

theorem conversation_history_survives_TTL:
  "now (advance (TTL CACHE_CONFIG + 1) (hello_turn (answering plain_answer) world0))
      - now (hello_turn (answering plain_answer) world0) = TTL CACHE_CONFIG + 1
   \<and> persisted_history (advance (TTL CACHE_CONFIG + 1) (hello_turn (answering plain_answer) world0))
        (KeyStr (js ''MZ1''))
      = Some [\<lparr>role = User, content = Some (js ''hello'')\<rparr>,
              \<lparr>role = Assistant, content = Some (js ''We are open from 9 to 5.'')\<rparr>]"
  by (simp add: advance_def hello_turn_def orchestrator_defs trim_hello answering_def
      plain_answer_def)

section \<open>Properties of the call session\<close>

subsection \<open>A socket that is not open\<close>











subsection \<open>No session gets beyond its start message\<close>








subsection \<open>Closure\<close>


lemma trim_initialMessage: "trim initialMessage = initialMessage"
  by (simp add: trim_def is_space_def initialMessage_def js_def)

lemma initialMessage_nonempty: "initialMessage \<noteq> []"
  by (simp add: initialMessage_def)

lemmas session_defs = session0_def start_message_def on_close_def on_dg_open_def on_dg_close_def
  on_transcript_def on_orchestrator_settled_def on_tts_settled_def timer_fired_def send_reply_def
  sendAudioFrames_def loop_pass_def after_loop_def await_tts_def fault_def invoke_def
  drop_pending_def dg_finish_def ws_close_def updateLeadInfo_ref_def deepgram_ref_def
  dg_is_open_def frameSize_def Let_def trim_initialMessage initialMessage_nonempty


text \<open>
  Scenario D on the transmitter alone, from a state no session reaches: of a buffer of five
  frames three are out when the stop message arrives; the timers that would have sent
  frames four and five and the mark send nothing, and the transmission is no longer
  waiting.
\<close>

lemma stop_at_frame_3:
  "outbound greeting_at_frame_3
     = [Media (Some (js ''MZ1'')) (replicate 160 1) 0, Media (Some (js ''MZ1'')) (replicate 160 2) 0,
        Media (Some (js ''MZ1'')) (replicate 160 3) 0]
   \<and> outbound (run [TimerFired 0, TimerFired 0, TimerFired 0] (step (Message Stop) greeting_at_frame_3))
     = outbound greeting_at_frame_3
   \<and> tasks (run [TimerFired 0] (step (Message Stop) greeting_at_frame_3)) = []"
  by (simp add: greeting_at_frame_3_def session_defs five_frames_def)

subsection \<open>The turn gate\<close>

lemma in_order_examples:
  "in_order [] [Media sid f 0, Mark sid 0, Media sid g 1, Mark sid 1]
   \<and> \<not> in_order [] [Media sid f 0, Media sid g 1, Mark sid 0, Mark sid 1]"
  by simp


text \<open>
  At every call site the index handed to \<^verbatim>\<open>sendAudioFrames\<close> is the counter itself, read
  at the call, so the comparison of the gate is true by construction there: on an open
  socket such a call would start its transmission whatever other transmission is under way.
  No session reaches a call site (lemma \<open>session_stays_idle\<close>).
\<close>

lemma gate_passes_at_call_sites:
  "ws_readyState s = OPEN \<Longrightarrow>
     send_reply audioBuffer s =
       loop_pass \<lparr>task_id = send_calls s, task_index = interactionCount s, task_audio = audioBuffer,
                  task_streamSid = streamSid s, task_i = 0\<rparr> (s\<lparr>send_calls := send_calls s + 1\<rparr>)"
  by (simp add: send_reply_def sendAudioFrames_def)

subsection \<open>Turns with an index of their own\<close>



lemma marks_snoc [simp]:
  "marks (xs @ [Mark sid n]) = marks xs @ [n]" "marks (xs @ [Media sid f n]) = marks xs"
  by (induction xs rule: marks.induct) auto







subsection \<open>Audio that arrives before the transcription connection is open\<close>

text \<open>
  The handler of the Open event, were it registered, would leave the queue as it is and
  hand nothing to the connection; no handler reads the queue.
\<close>

lemma open_leaves_queue:
  "c < length (conns s) \<Longrightarrow>
     audioBufferQueue (on_dg_open c s) = audioBufferQueue s
     \<and> dg_received (conns (on_dg_open c s) ! c) = dg_received (conns s ! c)"
  by (simp add: on_dg_open_def await_tts_def trim_initialMessage initialMessage_nonempty)


subsection \<open>The caller's name\<close>

text \<open>No invocation by a handler of the session hands the orchestrator a name.\<close>

lemma orch_calls_step:
  "list_all (\<lambda>c. oc_currentName c = None) (orch_calls s) \<Longrightarrow>
     list_all (\<lambda>c. oc_currentName c = None) (orch_calls (step ev s))"
proof (cases ev)
  case (Message m)
  assume "list_all (\<lambda>c. oc_currentName c = None) (orch_calls s)"
  then show ?thesis using Message
    by (cases m) (auto simp: dg_finish_def ws_close_def Let_def fault_def deepgram_ref_def
        split: option.splits)
next
  case SocketClosed
  assume "list_all (\<lambda>c. oc_currentName c = None) (orch_calls s)"
  then show ?thesis using SocketClosed by (auto simp: on_close_def dg_finish_def split: option.splits)
next
  case (DgOpened c)
  assume "list_all (\<lambda>c. oc_currentName c = None) (orch_calls s)"
  then show ?thesis using DgOpened
    by (auto simp: on_dg_open_def await_tts_def fault_def split: sum.splits)
next
  case (DgClosed c)
  assume "list_all (\<lambda>c. oc_currentName c = None) (orch_calls s)"
  then show ?thesis using DgClosed by (auto simp: on_dg_close_def)
next
  case (DgTranscript c f t)
  assume "list_all (\<lambda>c. oc_currentName c = None) (orch_calls s)"
  then show ?thesis using DgTranscript by (auto simp: on_transcript_def invoke_def)
next
  case (OrchestratorSettled i r)
  assume "list_all (\<lambda>c. oc_currentName c = None) (orch_calls s)"
  then show ?thesis using OrchestratorSettled
    by (auto simp: on_orchestrator_settled_def Let_def updateLeadInfo_ref_def await_tts_def
        fault_def invoke_def drop_pending_def split: pending.splits sum.splits)
next
  case (TTSSettled i res)
  assume "list_all (\<lambda>c. oc_currentName c = None) (orch_calls s)"
  then show ?thesis using TTSSettled
    by (auto simp: on_tts_settled_def send_reply_def sendAudioFrames_def loop_pass_def after_loop_def
        Let_def fault_def drop_pending_def split: pending.splits sum.splits)
next
  case (TimerFired n)
  assume "list_all (\<lambda>c. oc_currentName c = None) (orch_calls s)"
  then show ?thesis using TimerFired
    by (auto simp: timer_fired_def loop_pass_def after_loop_def Let_def split: list.splits)
qed


end
